theory Spec2Isabelle
  imports Complex_Main "HOL-Library.Sublist" "HOL-Library.AList" "HOL-Library.Multiset"
begin

section \<open>Python values\<close>

text \<open>
  The program is \<^verbatim>\<open>real_estate_manager.py\<close>. Its exceptions are values of
  \<open>error\<close>; a function that can raise returns \<open>error + 'a\<close>, with
  \<open>Inl\<close> for the exception.
\<close>

datatype error = ZeroDivisionError | OverflowError | TypeError | AttributeError
  | ValueError | IndexError

definition ebind :: "error + 'a \<Rightarrow> ('a \<Rightarrow> error + 'b) \<Rightarrow> error + 'b" where
  "ebind m f = (case m of Inl e \<Rightarrow> Inl e | Inr x \<Rightarrow> f x)"

subsection \<open>Floats\<close>

text \<open>
  A Python \<^verbatim>\<open>float\<close> is an IEEE 754 binary64 number: a finite value (kept here as
  the rational it denotes), an infinity or a NaN. The two zeros are one value: they
  compare equal, and no operation of the program tells them apart. An \<^verbatim>\<open>int\<close>
  that meets a float in a comparison is compared exactly, so \<open>Fin\<close> also carries
  integers there.
\<close>

datatype pyfloat = Fin rat | PInf | NInf | NaN

text \<open>The number of binary digits of a positive integer.\<close>

function nbits :: "int \<Rightarrow> int" where
  "nbits n = (if n \<le> 0 then 0 else 1 + nbits (n div 2))"
  by pat_completeness auto
termination
  by (relation "measure nat") auto

declare nbits.simps [simp del]

text \<open>For \<open>0 < q\<close>, \<open>expo q\<close> is the \<open>e\<close> with \<open>2 ^ e \<le> q < 2 ^ (e + 1)\<close>.\<close>

definition expo :: "rat \<Rightarrow> int" where
  "expo q = (if 1 \<le> q then nbits \<lfloor>q\<rfloor> - 1 else - nbits (\<lceil>1 / q\<rceil> - 1))"

definition pow2 :: "int \<Rightarrow> rat" where
  "pow2 e = (if 0 \<le> e then of_int (2 ^ nat e) else 1 / of_int (2 ^ nat (- e)))"

text \<open>Rounding to the nearest integer, a tie to the even one.\<close>

definition rnd_even :: "rat \<Rightarrow> int" where
  "rnd_even q =
     (let f = \<lfloor>q\<rfloor>; d = q - of_int f
      in if d < 1 / 2 then f else if 1 / 2 < d then f + 1
         else if even f then f else f + 1)"

text \<open>
  \<open>round64\<close> rounds an exact result to binary64: 53 significant bits, the
  exponent no smaller than that of the subnormal numbers, round to nearest with ties to
  even, and infinity from \<open>2 ^ 1024\<close> on.
\<close>

definition round64 :: "rat \<Rightarrow> pyfloat" where
  "round64 q =
     (if q = 0 then Fin 0
      else let a = \<bar>q\<bar>;
               u = pow2 (max (expo a) (- 1022) - 52);
               r = of_int (rnd_even (a / u)) * u
           in if pow2 1024 \<le> r then (if 0 < q then PInf else NInf)
              else Fin (if 0 < q then r else - r))"

fun fneg :: "pyfloat \<Rightarrow> pyfloat" where
  "fneg (Fin a) = Fin (- a)"
| "fneg PInf = NInf"
| "fneg NInf = PInf"
| "fneg NaN = NaN"

fun fadd :: "pyfloat \<Rightarrow> pyfloat \<Rightarrow> pyfloat" where
  "fadd NaN y = NaN"
| "fadd x NaN = NaN"
| "fadd (Fin a) (Fin b) = round64 (a + b)"
| "fadd PInf NInf = NaN"
| "fadd NInf PInf = NaN"
| "fadd PInf y = PInf"
| "fadd NInf y = NInf"
| "fadd (Fin a) y = y"

definition fsub :: "pyfloat \<Rightarrow> pyfloat \<Rightarrow> pyfloat" where
  "fsub x y = fadd x (fneg y)"

text \<open>The sign of a float that is not a NaN: \<open>-1\<close>, \<open>0\<close> or \<open>1\<close>.\<close>

fun fsign :: "pyfloat \<Rightarrow> int" where
  "fsign (Fin a) = (if a < 0 then - 1 else if a = 0 then 0 else 1)"
| "fsign PInf = 1"
| "fsign NInf = - 1"
| "fsign NaN = 0"

definition inf_of_sign :: "int \<Rightarrow> pyfloat" where
  "inf_of_sign s = (if s = 0 then NaN else if 0 < s then PInf else NInf)"

fun fmul :: "pyfloat \<Rightarrow> pyfloat \<Rightarrow> pyfloat" where
  "fmul NaN y = NaN"
| "fmul x NaN = NaN"
| "fmul (Fin a) (Fin b) = round64 (a * b)"
| "fmul x y = inf_of_sign (fsign x * fsign y)"

text \<open>
  Python's \<^verbatim>\<open>/\<close> on floats raises \<^verbatim>\<open>ZeroDivisionError\<close> for a zero divisor,
  whatever the dividend.
\<close>

fun fdiv :: "pyfloat \<Rightarrow> pyfloat \<Rightarrow> error + pyfloat" where
  "fdiv x (Fin b) =
     (if b = 0 then Inl ZeroDivisionError
      else case x of Fin a \<Rightarrow> Inr (round64 (a / b))
           | NaN \<Rightarrow> Inr NaN
           | _ \<Rightarrow> Inr (inf_of_sign (fsign x * fsign (Fin b))))"
| "fdiv x NaN = Inr NaN"
| "fdiv (Fin a) y = Inr (Fin 0)"
| "fdiv NaN y = Inr NaN"
| "fdiv x y = Inr NaN"

fun fle :: "pyfloat \<Rightarrow> pyfloat \<Rightarrow> bool" where
  "fle NaN y = False"
| "fle x NaN = False"
| "fle NInf y = True"
| "fle x PInf = True"
| "fle (Fin a) (Fin b) = (a \<le> b)"
| "fle x y = False"

fun feq :: "pyfloat \<Rightarrow> pyfloat \<Rightarrow> bool" where
  "feq NaN y = False"
| "feq x NaN = False"
| "feq x y = (x = y)"

definition flt :: "pyfloat \<Rightarrow> pyfloat \<Rightarrow> bool" where
  "flt x y = (fle x y \<and> \<not> feq x y)"

text \<open>
  An \<^verbatim>\<open>int\<close> that meets a float in arithmetic is converted first, correctly
  rounded; \<^verbatim>\<open>OverflowError\<close> when it is too large for a float.
\<close>

definition float_of_int :: "int \<Rightarrow> error + pyfloat" where
  "float_of_int i = (case round64 (of_int i) of Fin r \<Rightarrow> Inr (Fin r) | _ \<Rightarrow> Inl OverflowError)"

subsection \<open>Strings\<close>

text \<open>
  A string is the list of the bytes of its UTF-8 encoding. Two strings are equal exactly
  when their encodings are, and one occurs in the other exactly when its encoding does:
  no character's encoding occurs inside another's or across two.

  \<^verbatim>\<open>str.lower\<close> follows the Unicode tables of the interpreter. The model does not fix
  it: it is a component of the runtime that every operation below takes (see
  \<open>runtime\<close>). On strings of ASCII characters it is \<open>ascii_lower\<close>, which maps
  \<open>A\<close> to \<open>Z\<close> onto \<open>a\<close> to \<open>z\<close> and leaves every other character.
\<close>

definition ascii_lower_char :: "char \<Rightarrow> char" where
  "ascii_lower_char c =
     (let n = (of_char c :: nat) in if 65 \<le> n \<and> n \<le> 90 then char_of (n + 32) else c)"

definition ascii_lower :: "string \<Rightarrow> string" where
  "ascii_lower s = map ascii_lower_char s"

text \<open>\<^verbatim>\<open>needle in hay\<close> on strings: \<open>needle\<close> starts at some position of \<open>hay\<close>.\<close>

fun str_contains :: "string \<Rightarrow> string \<Rightarrow> bool" where
  "str_contains [] needle = (needle = [])"
| "str_contains (c # cs) needle = (prefix needle (c # cs) \<or> str_contains cs needle)"

subsection \<open>Enumerations and dynamically typed values\<close>

datatype PropertyType = RESIDENTIAL | COMMERCIAL | LAND | INDUSTRIAL

datatype PropertyStatus = FOR_SALE | FOR_RENT | SOLD | RENTED | PENDING

datatype ClientType = BUYER | SELLER | TENANT | LANDLORD

fun property_type_value :: "PropertyType \<Rightarrow> string" where
  "property_type_value RESIDENTIAL = ''Residential''"
| "property_type_value COMMERCIAL = ''Commercial''"
| "property_type_value LAND = ''Land''"
| "property_type_value INDUSTRIAL = ''Industrial''"

fun property_status_value :: "PropertyStatus \<Rightarrow> string" where
  "property_status_value FOR_SALE = ''For Sale''"
| "property_status_value FOR_RENT = ''For Rent''"
| "property_status_value SOLD = ''Sold''"
| "property_status_value RENTED = ''Rented''"
| "property_status_value PENDING = ''Pending''"

text \<open>
  The values a criterion, a preference or an attribute can hold: \<^verbatim>\<open>None\<close>, booleans,
  integers, floats, strings, lists, tuples, members of the two property enumerations,
  and objects of any other kind (a bound method, a class, a dictionary), of which the
  model keeps only which of them are equal: \<open>VObject m\<close> and \<open>VObject n\<close> are
  equal exactly when \<open>m = n\<close>, and no such object is a number, a string or a sequence.
\<close>

datatype pyval = VNone | VBool bool | VInt int | VFloat pyfloat | VStr string
  | VList "pyval list" | VTuple "pyval list"
  | VPropertyType PropertyType | VPropertyStatus PropertyStatus
  | VObject nat

text \<open>
  The numeric view of a value: \<^verbatim>\<open>bool\<close> is a subclass of \<^verbatim>\<open>int\<close>, and an
  integer is compared with a float by its exact value.
\<close>

fun num_of :: "pyval \<Rightarrow> pyfloat option" where
  "num_of (VBool b) = Some (Fin (if b then 1 else 0))"
| "num_of (VInt i) = Some (Fin (of_int i))"
| "num_of (VFloat x) = Some x"
| "num_of v = None"

text \<open>
  \<^verbatim>\<open>a == b\<close>: numbers by value, sequences of one kind element by element, everything
  else only with its like.
\<close>

fun py_eq :: "pyval \<Rightarrow> pyval \<Rightarrow> bool"
  and py_eq_list :: "pyval list \<Rightarrow> pyval list \<Rightarrow> bool" where
  "py_eq (VList xs) v = (case v of VList ys \<Rightarrow> py_eq_list xs ys | _ \<Rightarrow> False)"
| "py_eq (VTuple xs) v = (case v of VTuple ys \<Rightarrow> py_eq_list xs ys | _ \<Rightarrow> False)"
| "py_eq VNone v = (v = VNone)"
| "py_eq (VStr s) v = (v = VStr s)"
| "py_eq (VPropertyType t) v = (v = VPropertyType t)"
| "py_eq (VPropertyStatus t) v = (v = VPropertyStatus t)"
| "py_eq (VObject n) v = (v = VObject n)"
| "py_eq a v = (case (num_of a, num_of v) of (Some x, Some y) \<Rightarrow> feq x y | _ \<Rightarrow> False)"
| "py_eq_list [] ys = (ys = [])"
| "py_eq_list (x # xs) ys = (case ys of [] \<Rightarrow> False | y # ys' \<Rightarrow> py_eq x y \<and> py_eq_list xs ys')"

text \<open>\<^verbatim>\<open>isinstance(v, str)\<close>, and the string that such a value holds.\<close>

fun is_str :: "pyval \<Rightarrow> bool" where
  "is_str (VStr s) = True"
| "is_str v = False"

fun str_of :: "pyval \<Rightarrow> string" where
  "str_of (VStr s) = s"
| "str_of v = []"

definition py_ne :: "pyval \<Rightarrow> pyval \<Rightarrow> bool" where
  "py_ne a b = (\<not> py_eq a b)"

text \<open>
  \<^verbatim>\<open>x <= v\<close> and \<^verbatim>\<open>x >= v\<close> for a number \<open>x\<close> of the program and a
  dynamically typed \<open>v\<close>: \<^verbatim>\<open>TypeError\<close> unless \<open>v\<close> is a number.
\<close>

definition num_le_val :: "pyfloat \<Rightarrow> pyval \<Rightarrow> error + bool" where
  "num_le_val x v = (case num_of v of None \<Rightarrow> Inl TypeError | Some y \<Rightarrow> Inr (fle x y))"

definition num_ge_val :: "pyfloat \<Rightarrow> pyval \<Rightarrow> error + bool" where
  "num_ge_val x v = (case num_of v of None \<Rightarrow> Inl TypeError | Some y \<Rightarrow> Inr (fle y x))"

definition val_le_num :: "pyval \<Rightarrow> pyfloat \<Rightarrow> error + bool" where
  "val_le_num v x = (case num_of v of None \<Rightarrow> Inl TypeError | Some y \<Rightarrow> Inr (fle y x))"

section \<open>The data model\<close>

record Property =
  property_id :: string
  address :: string
  city :: string
  state :: string
  zip_code :: string
  property_type :: PropertyType
  status :: PropertyStatus
  price :: pyfloat
  bedrooms :: int
  bathrooms :: pyfloat
  square_feet :: int
  year_built :: int
  description :: string
  listing_date :: string
  features :: "string list"
  agent_id :: "string option"

text \<open>
  The field \<^verbatim>\<open>notes\<close> of a client is \<open>client_notes\<close> here. A dictionary, such as
  the preferences of a client or a collection of the system, is the list of its items
  in insertion order; its keys are distinct.
\<close>

record Client =
  client_id :: string
  first_name :: string
  last_name :: string
  email :: string
  phone :: string
  client_type :: ClientType
  budget :: pyfloat
  preferences :: "(string \<times> pyval) list"
  interested_properties :: "string list"
  client_notes :: string

text \<open>
  The state of \<^verbatim>\<open>RealEstateManagementSystem\<close> that the operations below read or
  write (the agents and transactions are never touched).
\<close>

record system =
  properties :: "(string \<times> Property) list"
  clients :: "(string \<times> Client) list"

definition dict_values :: "('k \<times> 'v) list \<Rightarrow> 'v list" where
  "dict_values d = map snd d"

definition dict_contains :: "('k \<times> 'v) list \<Rightarrow> 'k \<Rightarrow> bool" where
  "dict_contains d k = (map_of d k \<noteq> None)"

section \<open>search_properties\<close>

text \<open>The sixteen fields of a \<^verbatim>\<open>Property\<close>, as \<^verbatim>\<open>getattr\<close> gives them.\<close>

definition property_attrs :: "Property \<Rightarrow> (string \<times> pyval) list" where
  "property_attrs p =
     [(''property_id'', VStr (property_id p)),
      (''address'', VStr (address p)),
      (''city'', VStr (city p)),
      (''state'', VStr (state p)),
      (''zip_code'', VStr (zip_code p)),
      (''property_type'', VPropertyType (property_type p)),
      (''status'', VPropertyStatus (status p)),
      (''price'', VFloat (price p)),
      (''bedrooms'', VInt (bedrooms p)),
      (''bathrooms'', VFloat (bathrooms p)),
      (''square_feet'', VInt (square_feet p)),
      (''year_built'', VInt (year_built p)),
      (''description'', VStr (description p)),
      (''listing_date'', VStr (listing_date p)),
      (''features'', VList (map VStr (features p))),
      (''agent_id'', (case agent_id p of None \<Rightarrow> VNone | Some a \<Rightarrow> VStr a))]"

text \<open>
  What the model takes from the interpreter without fixing it: \<^verbatim>\<open>str.lower\<close>, and the
  attributes that an instance of \<^verbatim>\<open>Property\<close> has besides its fields (those of the
  class and of \<^verbatim>\<open>object\<close>, such as \<^verbatim>\<open>__doc__\<close>, \<^verbatim>\<open>__class__\<close> and \<^verbatim>\<open>__eq__\<close>),
  which differ between versions of Python. Every operation on strings or attributes
  takes a \<open>runtime\<close>, and every theorem holds for all of them.
\<close>

record runtime =
  rt_lower :: "string \<Rightarrow> string"
  rt_attrs :: "Property \<Rightarrow> string \<Rightarrow> pyval option"

text \<open>
  \<^verbatim>\<open>getattr\<close> and \<^verbatim>\<open>hasattr\<close> on a \<^verbatim>\<open>Property\<close>: a field of the instance comes
  before an attribute of its class.
\<close>

definition getattr_property :: "runtime \<Rightarrow> Property \<Rightarrow> string \<Rightarrow> pyval option" where
  "getattr_property rt p key =
     (case map_of (property_attrs p) key of Some v \<Rightarrow> Some v | None \<Rightarrow> rt_attrs rt p key)"

definition hasattr_property :: "runtime \<Rightarrow> Property \<Rightarrow> string \<Rightarrow> bool" where
  "hasattr_property rt p key = (getattr_property rt p key \<noteq> None)"

text \<open>
  A runtime for the concrete runs below: the other attributes of a \<^verbatim>\<open>Property\<close> as
  CPython 3.11 gives them for the program run as a script, and \<^verbatim>\<open>str.lower\<close> as it
  is on strings of ASCII characters, the only ones in these runs.
\<close>

definition dataclass_attrs :: "Property \<Rightarrow> string \<Rightarrow> pyval option" where
  "dataclass_attrs p =
     map_of
       [(''__annotations__'', VObject 0), (''__class__'', VObject 1),
        (''__dataclass_fields__'', VObject 2), (''__dataclass_params__'', VObject 3),
        (''__delattr__'', VObject 4), (''__dict__'', VObject 5), (''__dir__'', VObject 6),
        (''__doc__'', VStr ''Class representing a real estate property''),
        (''__eq__'', VObject 7), (''__format__'', VObject 8), (''__ge__'', VObject 9),
        (''__getattribute__'', VObject 10), (''__getstate__'', VObject 11),
        (''__gt__'', VObject 12), (''__hash__'', VNone), (''__init__'', VObject 13),
        (''__init_subclass__'', VObject 14), (''__le__'', VObject 15),
        (''__lt__'', VObject 16),
        (''__match_args__'', VTuple (map (VStr \<circ> fst) (property_attrs p))),
        (''__module__'', VStr ''__main__''), (''__ne__'', VObject 17),
        (''__new__'', VObject 18), (''__reduce__'', VObject 19),
        (''__reduce_ex__'', VObject 20), (''__repr__'', VObject 21),
        (''__setattr__'', VObject 22), (''__sizeof__'', VObject 23),
        (''__str__'', VObject 24), (''__subclasshook__'', VObject 25),
        (''__weakref__'', VNone)]"

definition ascii_runtime :: runtime where
  "ascii_runtime = \<lparr>rt_lower = ascii_lower, rt_attrs = dataclass_attrs\<rparr>"

text \<open>The unwrapping of an enumeration member to its \<^verbatim>\<open>.value\<close>.\<close>

fun enum_value :: "pyval \<Rightarrow> pyval" where
  "enum_value (VPropertyType t) = VStr (property_type_value t)"
| "enum_value (VPropertyStatus t) = VStr (property_status_value t)"
| "enum_value v = v"

text \<open>
  The inner loop of \<^verbatim>\<open>search_properties\<close> over \<^verbatim>\<open>criteria.items()\<close>: the flag
  \<^verbatim>\<open>match\<close> starts true; a criterion that fails sets it false and leaves the loop.
\<close>

fun property_matches :: "runtime \<Rightarrow> Property \<Rightarrow> (string \<times> pyval) list \<Rightarrow> bool" where
  "property_matches rt p [] = True"
| "property_matches rt p ((key, expected) # rest) =
     (if hasattr_property rt p key then
        (let prop_value = enum_value (the (getattr_property rt p key)) in
         if is_str expected \<and> is_str prop_value then
           (if \<not> str_contains (rt_lower rt (str_of prop_value)) (rt_lower rt (str_of expected)) then False
            else property_matches rt p rest)
         else if py_ne expected prop_value then False
         else property_matches rt p rest)
      else property_matches rt p rest)"

definition search_properties ::
  "runtime \<Rightarrow> system \<Rightarrow> (string \<times> pyval) list \<Rightarrow> Property list" where
  "search_properties rt s criteria =
     filter (\<lambda>p. property_matches rt p criteria) (dict_values (properties s))"

text \<open>The first sample property of \<^verbatim>\<open>initialize_sample_data\<close>.\<close>

definition sample_property_1 :: Property where
  "sample_property_1 =
     \<lparr>property_id = ''PROP0001'', address = ''123 Main St'', city = ''New York'',
      state = ''NY'', zip_code = ''10001'', property_type = RESIDENTIAL, status = FOR_SALE,
      price = Fin 750000, bedrooms = 3, bathrooms = Fin (5 / 2), square_feet = 2200,
      year_built = 2010, description = ''Beautiful modern townhouse'',
      listing_date = ''2024-01-15'', features = [''Garage'', ''Garden'', ''Pool''],
      agent_id = None\<rparr>"

definition sample_property_2 :: Property where
  "sample_property_2 =
     \<lparr>property_id = ''PROP0002'', address = ''456 Oak Ave'', city = ''Los Angeles'',
      state = ''CA'', zip_code = ''90001'', property_type = COMMERCIAL, status = FOR_RENT,
      price = Fin 5000, bedrooms = 0, bathrooms = Fin 2, square_feet = 1500,
      year_built = 2015, description = ''Prime commercial space'',
      listing_date = ''2024-01-10'', features = [''Parking'', ''Security'', ''AC''],
      agent_id = None\<rparr>"

definition sample_client_1 :: Client where
  "sample_client_1 =
     \<lparr>client_id = ''CLI0001'', first_name = ''John'', last_name = ''Doe'',
      email = ''john@example.com'', phone = ''555-0101'', client_type = BUYER,
      budget = Fin 800000,
      preferences = [(''property_type'', VStr ''Residential''), (''bedrooms'', VInt 3),
                     (''city'', VStr ''New York'')],
      interested_properties = [''PROP0001''], client_notes = ''Looking for family home''\<rparr>"

definition sample_system :: system where
  "sample_system =
     \<lparr>properties = [(''PROP0001'', sample_property_1), (''PROP0002'', sample_property_2)],
      clients = [(''CLI0001'', sample_client_1)]\<rparr>"

section \<open>update_property_status\<close>

text \<open>
  \<^verbatim>\<open>d[k].field = v\<close>: the record stored under the key is changed where it stands; the
  keys of the dictionary and their order stay.
\<close>

fun dict_modify :: "('k \<times> 'v) list \<Rightarrow> 'k \<Rightarrow> ('v \<Rightarrow> 'v) \<Rightarrow> ('k \<times> 'v) list" where
  "dict_modify [] k f = []"
| "dict_modify ((k', v) # d) k f =
     (if k' = k then (k', f v) # d else (k', v) # dict_modify d k f)"

text \<open>
  The result is the new state and the line printed. Neither branch raises: an unknown
  identifier is reported by the printed line only. (\<^verbatim>\<open>save_data\<close> writes the
  collections to files and changes nothing in memory.)
\<close>

definition update_property_status ::
  "system \<Rightarrow> string \<Rightarrow> PropertyStatus \<Rightarrow> error + system \<times> string" where
  "update_property_status s pid new_status =
     (if dict_contains (properties s) pid then
        Inr (s\<lparr>properties := dict_modify (properties s) pid (\<lambda>p. p\<lparr>status := new_status\<rparr>)\<rparr>,
             ''Property '' @ pid @ '' status updated to '' @ property_status_value new_status)
      else Inr (s, ''Property '' @ pid @ '' not found''))"

section \<open>calculate_mortgage\<close>

text \<open>Arithmetic of a float with an \<^verbatim>\<open>int\<close>: the integer is converted first.\<close>

definition fdiv_int :: "pyfloat \<Rightarrow> int \<Rightarrow> error + pyfloat" where
  "fdiv_int x i = ebind (float_of_int i) (\<lambda>y. fdiv x y)"

definition fmul_int :: "pyfloat \<Rightarrow> int \<Rightarrow> error + pyfloat" where
  "fmul_int x i = ebind (float_of_int i) (\<lambda>y. Inr (fmul x y))"

text \<open>
  \<^verbatim>\<open>x ** n\<close> for a float \<open>x\<close> and an \<^verbatim>\<open>int\<close> \<open>n\<close>: \<open>1.0\<close> when \<open>n\<close> is zero,
  whatever \<open>x\<close> is; otherwise the power function of the platform's C library, which is
  a parameter \<open>libm_pow\<close> of the model (its rounding is not fixed by the language).
\<close>

definition float_pow ::
  "(pyfloat \<Rightarrow> int \<Rightarrow> error + pyfloat) \<Rightarrow> pyfloat \<Rightarrow> int \<Rightarrow> error + pyfloat" where
  "float_pow libm_pow x n = (if n = 0 then Inr (Fin 1) else libm_pow x n)"

record mortgage =
  loan_amount :: pyfloat
  monthly_payment :: pyfloat
  total_payment :: pyfloat
  total_interest :: pyfloat

definition calculate_mortgage ::
  "(pyfloat \<Rightarrow> int \<Rightarrow> error + pyfloat) \<Rightarrow> pyfloat \<Rightarrow> pyfloat \<Rightarrow> pyfloat \<Rightarrow> int
     \<Rightarrow> error + mortgage" where
  "calculate_mortgage libm_pow property_price down_payment interest_rate loan_term =
     (let loan = fsub property_price down_payment in
      ebind (fdiv_int interest_rate 100) (\<lambda>rate_100.
      ebind (fdiv_int rate_100 12) (\<lambda>monthly_rate.
      let num_payments = loan_term * 12 in
      ebind
        (if flt (Fin 0) monthly_rate then
           ebind (float_pow libm_pow (fadd (Fin 1) monthly_rate) num_payments) (\<lambda>growth.
           ebind (float_pow libm_pow (fadd (Fin 1) monthly_rate) num_payments) (\<lambda>growth'.
           fdiv (fmul loan (fmul monthly_rate growth)) (fsub growth' (Fin 1))))
         else fdiv_int loan num_payments) (\<lambda>payment.
      ebind (fmul_int payment num_payments) (\<lambda>paid.
      Inr \<lparr>loan_amount = loan, monthly_payment = payment, total_payment = paid,
           total_interest = fsub paid loan\<rparr>)))))"

text \<open>
  A power function for the concrete runs below: the exact power of a finite base,
  rounded once.
\<close>

definition pow_rounded :: "pyfloat \<Rightarrow> int \<Rightarrow> error + pyfloat" where
  "pow_rounded x n =
     (case x of
        Fin a \<Rightarrow>
          (if a = 0 \<and> n < 0 then Inl ZeroDivisionError
           else case round64 (a powi n) of Fin r \<Rightarrow> Inr (Fin r) | _ \<Rightarrow> Inl OverflowError)
      | _ \<Rightarrow> Inl OverflowError)"

section \<open>match_clients_to_properties\<close>

text \<open>One entry of a client's list: the dictionary with the keys \<^verbatim>\<open>property\<close> and \<^verbatim>\<open>match_score\<close>.\<close>

record match_entry =
  matched_property :: Property
  match_score :: int

text \<open>The float that the literal \<^verbatim>\<open>1.1\<close> denotes.\<close>

definition float_1_1 :: pyfloat where
  "float_1_1 = round64 (11 / 10)"

text \<open>\<^verbatim>\<open>v.lower()\<close> for a dynamically typed \<open>v\<close>: only a string has the method.\<close>

fun val_lower :: "runtime \<Rightarrow> pyval \<Rightarrow> error + string" where
  "val_lower rt (VStr s) = Inr (rt_lower rt s)"
| "val_lower rt v = Inl AttributeError"

text \<open>
  The score of one property for one client: the four preference tests in the order of
  the source, each adding its weight to \<^verbatim>\<open>match_score\<close>.
\<close>

definition score_property :: "runtime \<Rightarrow> Client \<Rightarrow> Property \<Rightarrow> error + int" where
  "score_property rt c p =
     (let prefs = preferences c;
          score0 = (0 :: int);
          score1 = (if dict_contains prefs ''property_type'' then
                      (if py_eq (VStr (property_type_value (property_type p)))
                            (the (map_of prefs ''property_type''))
                       then score0 + 30 else score0)
                    else score0)
      in
      ebind (if dict_contains prefs ''bedrooms'' then
               ebind (num_ge_val (Fin (of_int (bedrooms p))) (the (map_of prefs ''bedrooms'')))
                 (\<lambda>ok. Inr (if ok then score1 + 25 else score1))
             else Inr score1) (\<lambda>score2.
      ebind (if dict_contains prefs ''city'' then
               ebind (val_lower rt (the (map_of prefs ''city'')))
                 (\<lambda>wanted. Inr (if str_contains (rt_lower rt (city p)) wanted
                                 then score2 + 20 else score2))
             else Inr score2) (\<lambda>score3.
      (if dict_contains prefs ''max_price'' then
         ebind (num_le_val (price p) (the (map_of prefs ''max_price'')))
           (\<lambda>ok. Inr (if ok then score3 + 15 else score3))
       else Inr score3))))"

text \<open>
  The loop over \<^verbatim>\<open>self.properties.values()\<close> for one client: the entries appended to
  \<^verbatim>\<open>suitable_properties\<close>, in the order in which the properties are met.
\<close>

fun suitable_properties ::
  "runtime \<Rightarrow> Client \<Rightarrow> Property list \<Rightarrow> error + match_entry list" where
  "suitable_properties rt c [] = Inr []"
| "suitable_properties rt c (p # ps) =
     (if status p \<in> set [FOR_SALE, PENDING] then
        (if fle (price p) (fmul (budget c) float_1_1) then
           (case score_property rt c p of
              Inl e \<Rightarrow> Inl e
            | Inr score \<Rightarrow>
                (case suitable_properties rt c ps of
                   Inl e \<Rightarrow> Inl e
                 | Inr rest \<Rightarrow>
                     Inr (if 40 \<le> score
                          then \<lparr>matched_property = p, match_score = score\<rparr> # rest
                          else rest)))
         else suitable_properties rt c ps)
      else suitable_properties rt c ps)"

text \<open>
  \<^verbatim>\<open>list.sort(key=..., reverse=True)\<close>: the list is reversed, sorted stably by the
  key in ascending order, and reversed again.
\<close>

definition sort_reverse :: "('a \<Rightarrow> int) \<Rightarrow> 'a list \<Rightarrow> 'a list" where
  "sort_reverse key xs = rev (sort_key key (rev xs))"

definition client_matches ::
  "runtime \<Rightarrow> Client \<Rightarrow> Property list \<Rightarrow> error + match_entry list" where
  "client_matches rt c props =
     ebind (suitable_properties rt c props) (\<lambda>suitable.
       Inr (take 5 (sort_reverse match_score suitable)))"

fun match_loop ::
  "runtime \<Rightarrow> Property list \<Rightarrow> Client list \<Rightarrow> (string \<times> match_entry list) list
     \<Rightarrow> error + (string \<times> match_entry list) list" where
  "match_loop rt props [] matches = Inr matches"
| "match_loop rt props (c # cs) matches =
     (if client_type c = BUYER then
        (case client_matches rt c props of
           Inl e \<Rightarrow> Inl e
         | Inr best \<Rightarrow> match_loop rt props cs (AList.update (client_id c) best matches))
      else match_loop rt props cs matches)"

definition match_clients_to_properties ::
  "runtime \<Rightarrow> system \<Rightarrow> error + (string \<times> match_entry list) list" where
  "match_clients_to_properties rt s =
     match_loop rt (dict_values (properties s)) (dict_values (clients s)) []"

section \<open>search_properties_interactive\<close>

text \<open>\<^verbatim>\<open>v[i]\<close> for a tuple or a list.\<close>

fun py_getitem :: "pyval \<Rightarrow> nat \<Rightarrow> error + pyval" where
  "py_getitem (VTuple xs) i = (if i < length xs then Inr (xs ! i) else Inl IndexError)"
| "py_getitem (VList xs) i = (if i < length xs then Inr (xs ! i) else Inl IndexError)"
| "py_getitem v i = Inl TypeError"

text \<open>\<^verbatim>\<open>a, b = v\<close>: \<open>v\<close> is unpacked into exactly two values.\<close>

fun unpack2 :: "pyval \<Rightarrow> error + pyval \<times> pyval" where
  "unpack2 (VTuple [a, b]) = Inr (a, b)"
| "unpack2 (VList [a, b]) = Inr (a, b)"
| "unpack2 (VTuple xs) = Inl ValueError"
| "unpack2 (VList xs) = Inl ValueError"
| "unpack2 v = Inl TypeError"

definition dict_get :: "('k \<times> 'v) list \<Rightarrow> 'k \<Rightarrow> 'v \<Rightarrow> 'v" where
  "dict_get d k dflt = (case map_of d k of None \<Rightarrow> dflt | Some v \<Rightarrow> v)"

definition fields :: "string list" where
  "fields = [''city'', ''property_type'', ''status'', ''bedrooms'', ''min_price'', ''max_price'']"

text \<open>
  The body of the loop that fills \<^verbatim>\<open>criteria\<close>, for one field. \<open>answers field\<close> is
  the line typed at the prompt for \<open>field\<close>; the built-in conversions \<^verbatim>\<open>int\<close> and
  \<^verbatim>\<open>float\<close> of a typed line are the parameters \<open>to_int\<close> and \<open>to_float\<close>, which
  raise \<^verbatim>\<open>ValueError\<close> on a line they cannot read.
\<close>

definition criteria_step ::
  "(string \<Rightarrow> error + int) \<Rightarrow> (string \<Rightarrow> error + pyfloat) \<Rightarrow> (string \<Rightarrow> string)
     \<Rightarrow> string \<Rightarrow> (string \<times> pyval) list \<Rightarrow> error + (string \<times> pyval) list" where
  "criteria_step to_int to_float answers field criteria =
     (if answers field \<noteq> [] then
        (if field \<in> set [''bedrooms''] then
           ebind (to_int (answers field)) (\<lambda>n. Inr (AList.update field (VInt n) criteria))
         else if field \<in> set [''min_price'', ''max_price''] then
           (let criteria' =
                  AList.update ''price_range''
                    (dict_get criteria ''price_range'' (VTuple [VInt 0, VFloat PInf])) criteria;
                current = the (map_of criteria' ''price_range'')
            in
            if field = ''min_price'' then
              ebind (to_float (answers field)) (\<lambda>x.
              ebind (py_getitem current 1) (\<lambda>hi.
              Inr (AList.update ''price_range'' (VTuple [VFloat x, hi]) criteria')))
            else
              ebind (py_getitem current 0) (\<lambda>lo.
              ebind (to_float (answers field)) (\<lambda>x.
              Inr (AList.update ''price_range'' (VTuple [lo, VFloat x]) criteria'))))
         else Inr (AList.update field (VStr (answers field)) criteria))
      else Inr criteria)"

fun collect_criteria ::
  "(string \<Rightarrow> error + int) \<Rightarrow> (string \<Rightarrow> error + pyfloat) \<Rightarrow> (string \<Rightarrow> string)
     \<Rightarrow> string list \<Rightarrow> (string \<times> pyval) list \<Rightarrow> error + (string \<times> pyval) list" where
  "collect_criteria to_int to_float answers [] criteria = Inr criteria"
| "collect_criteria to_int to_float answers (field # rest) criteria =
     (case criteria_step to_int to_float answers field criteria of
        Inl e \<Rightarrow> Inl e
      | Inr criteria' \<Rightarrow> collect_criteria to_int to_float answers rest criteria')"

text \<open>
  The comprehension \<^verbatim>\<open>[p for p in results if min_price <= p.price <= max_price]\<close>; the
  second comparison is made only when the first holds.
\<close>

fun price_filter :: "pyval \<Rightarrow> pyval \<Rightarrow> Property list \<Rightarrow> error + Property list" where
  "price_filter min_price max_price [] = Inr []"
| "price_filter min_price max_price (p # ps) =
     (case val_le_num min_price (price p) of
        Inl e \<Rightarrow> Inl e
      | Inr min_ok \<Rightarrow>
          (case (if min_ok then num_le_val (price p) max_price else Inr False) of
             Inl e \<Rightarrow> Inl e
           | Inr keep \<Rightarrow>
               (case price_filter min_price max_price ps of
                  Inl e \<Rightarrow> Inl e
                | Inr kept \<Rightarrow> Inr (if keep then p # kept else kept))))"

text \<open>The records that \<^verbatim>\<open>search_properties_interactive\<close> goes on to print.\<close>

definition search_properties_interactive ::
  "runtime \<Rightarrow> (string \<Rightarrow> error + int) \<Rightarrow> (string \<Rightarrow> error + pyfloat) \<Rightarrow> system \<Rightarrow> (string \<Rightarrow> string)
     \<Rightarrow> error + Property list" where
  "search_properties_interactive rt to_int to_float s answers =
     ebind (collect_criteria to_int to_float answers fields []) (\<lambda>criteria.
       let results =
             search_properties rt s
               (filter (\<lambda>(k, v). k \<notin> set [''min_price'', ''max_price'']) criteria)
       in
       if dict_contains criteria ''price_range'' then
         ebind (unpack2 (the (map_of criteria ''price_range''))) (\<lambda>(min_price, max_price).
           price_filter min_price max_price results)
       else Inr results)"

section \<open>An example portfolio\<close>

text \<open>
  A larger state for the concrete runs of the matcher: one buyer with a budget of 800000
  who wants a residential property with at least 3 bedrooms for at most 700000, and
  eleven listings that differ from the first sample property in identifier, type,
  status, bedrooms and price.
\<close>

definition listing ::
  "string \<Rightarrow> PropertyType \<Rightarrow> PropertyStatus \<Rightarrow> int \<Rightarrow> rat \<Rightarrow> Property" where
  "listing pid kind st beds amount =
     sample_property_1\<lparr>property_id := pid, property_type := kind, status := st,
                        bedrooms := beds, price := Fin amount\<rparr>"

definition demo_client :: Client where
  "demo_client =
     sample_client_1\<lparr>preferences :=
       [(''property_type'', VStr ''Residential''), (''bedrooms'', VInt 3),
        (''max_price'', VInt 700000)]\<rparr>"

definition demo_system :: system where
  "demo_system =
     \<lparr>properties =
        [(''A'', listing ''A'' RESIDENTIAL FOR_SALE 3 750000),
         (''B'', listing ''B'' RESIDENTIAL FOR_SALE 2 600000),
         (''C'', listing ''C'' COMMERCIAL PENDING 4 650000),
         (''D'', listing ''D'' RESIDENTIAL FOR_SALE 4 690000),
         (''E'', listing ''E'' RESIDENTIAL FOR_SALE 3 900000),
         (''F'', listing ''F'' RESIDENTIAL PENDING 3 500000),
         (''G'', listing ''G'' RESIDENTIAL SOLD 5 400000),
         (''H'', listing ''H'' RESIDENTIAL FOR_SALE 2 800000),
         (''I'', listing ''I'' COMMERCIAL FOR_SALE 3 700000),
         (''J'', listing ''J'' RESIDENTIAL FOR_SALE 3 720000),
         (''K'', listing ''K'' RESIDENTIAL FOR_RENT 4 300000)],
      clients = [(''CLI0001'', demo_client)]\<rparr>"

text \<open>The entries accepted for the buyer, in the order in which the listings are met.\<close>

definition demo_accepted :: "match_entry list" where
  "demo_accepted =
     [\<lparr>matched_property = listing ''A'' RESIDENTIAL FOR_SALE 3 750000, match_score = 55\<rparr>,
      \<lparr>matched_property = listing ''B'' RESIDENTIAL FOR_SALE 2 600000, match_score = 45\<rparr>,
      \<lparr>matched_property = listing ''C'' COMMERCIAL PENDING 4 650000, match_score = 40\<rparr>,
      \<lparr>matched_property = listing ''D'' RESIDENTIAL FOR_SALE 4 690000, match_score = 70\<rparr>,
      \<lparr>matched_property = listing ''F'' RESIDENTIAL PENDING 3 500000, match_score = 70\<rparr>,
      \<lparr>matched_property = listing ''I'' COMMERCIAL FOR_SALE 3 700000, match_score = 40\<rparr>,
      \<lparr>matched_property = listing ''J'' RESIDENTIAL FOR_SALE 3 720000, match_score = 55\<rparr>]"

text \<open>
  Typed lines for a run of the interactive search, a least price of 5000 and an upper
  bound of 750000, and conversions that read these lines.
\<close>

definition typed_answers :: "string \<Rightarrow> string" where
  "typed_answers field =
     (if field = ''min_price'' then ''5000''
      else if field = ''max_price'' then ''750000'' else [])"

definition read_int :: "string \<Rightarrow> error + int" where
  "read_int line = (if line = ''3'' then Inr 3 else Inl ValueError)"

definition read_float :: "string \<Rightarrow> error + pyfloat" where
  "read_float line =
     (if line = ''5000'' then Inr (Fin 5000)
      else if line = ''750000'' then Inr (Fin 750000) else Inl ValueError)"

section \<open>Properties of search_properties\<close>

lemma str_contains_sublist: "str_contains hay needle = sublist needle hay"
  by (induction hay) (simp_all add: sublist_Cons_right)

lemma property_matches_append:
  "property_matches rt p (xs @ ys) = (property_matches rt p xs \<and> property_matches rt p ys)"
proof (induction xs)
  case Nil
  show ?case by simp
next
  case (Cons kv xs)
  obtain key expected where kv: "kv = (key, expected)" by (cases kv)
  show ?case
    unfolding kv using Cons.IH
    by (auto simp: Let_def)
qed

lemma property_matches_absent:
  "\<not> hasattr_property rt p key \<Longrightarrow>
   property_matches rt p ((key, expected) # rest) = property_matches rt p rest"
  by simp

lemma property_matches_strings:
  assumes "getattr_property rt p key = Some a" and "enum_value a = VStr s"
  shows "property_matches rt p ((key, VStr v) # rest) =
         (str_contains (rt_lower rt s) (rt_lower rt v) \<and> property_matches rt p rest)"
  using assms by (simp add: hasattr_property_def)

text \<open>
  C7. A search with no criteria returns every record of the collection, in the
  collection's order.
\<close>

theorem search_properties_no_criteria:
  "search_properties rt s [] = dict_values (properties s)"
  by (simp add: search_properties_def)

theorem search_properties_no_criteria_witness:
  "search_properties ascii_runtime sample_system [] = [sample_property_1, sample_property_2]"
  using search_properties_no_criteria [of ascii_runtime sample_system]
  by (simp add: sample_system_def dict_values_def)

text \<open>
  C1, as stated, fails: a criterion on a name that the record does not have is skipped
  by the \<^verbatim>\<open>hasattr\<close> guard. The criterion \<^verbatim>\<open>price_range\<close>, which
  \<^verbatim>\<open>search_properties_interactive\<close> passes on, names no field of a property, and both
  sample properties are returned.
\<close>

theorem absent_field_counterexample:
  "\<not> hasattr_property ascii_runtime sample_property_1 ''price_range'' \<and>
   \<not> hasattr_property ascii_runtime sample_property_2 ''price_range'' \<and>
   search_properties ascii_runtime sample_system [(''price_range'', VTuple [VInt 0, VFloat PInf])] =
     [sample_property_1, sample_property_2]"
  by code_simp

text \<open>
  C1, amended. A criterion on a name for which \<^verbatim>\<open>hasattr\<close> is false, one that is
  neither a field of the record nor another attribute of it, is ignored: the record
  matches exactly when it matches the criteria without the entries for that name. (A
  name such as \<^verbatim>\<open>__doc__\<close> is an attribute, and a criterion on it is tested.)
\<close>

theorem absent_field_ignored:
  "\<not> hasattr_property rt p key \<Longrightarrow>
   property_matches rt p criteria = property_matches rt p (filter (\<lambda>kv. fst kv \<noteq> key) criteria)"
proof (induction criteria)
  case Nil
  show ?case by simp
next
  case (Cons kv criteria)
  obtain k expected where kv: "kv = (k, expected)" by (cases kv)
  show ?case
  proof (cases "k = key")
    case True
    with Cons kv show ?thesis by simp
  next
    case False
    with Cons kv show ?thesis by (simp add: Let_def)
  qed
qed

theorem absent_field_ignored_witness:
  "\<not> hasattr_property ascii_runtime sample_property_1 ''price_range'' \<and>
   property_matches ascii_runtime sample_property_1
     [(''city'', VStr ''NEW''), (''price_range'', VTuple [VInt 0, VFloat PInf])] =
   property_matches ascii_runtime sample_property_1
     (filter (\<lambda>kv. fst kv \<noteq> ''price_range'')
        [(''city'', VStr ''NEW''), (''price_range'', VTuple [VInt 0, VFloat PInf])]) \<and>
   property_matches ascii_runtime sample_property_1 [(''city'', VStr ''NEW'')] \<and>
   hasattr_property ascii_runtime sample_property_1 ''__doc__'' \<and>
   \<not> property_matches ascii_runtime sample_property_1 [(''__doc__'', VStr ''zzz'')]"
proof -
  have h: "\<not> hasattr_property ascii_runtime sample_property_1 ''price_range''"
    by code_simp
  have m: "property_matches ascii_runtime sample_property_1 [(''city'', VStr ''NEW'')]"
    by code_simp
  have d: "hasattr_property ascii_runtime sample_property_1 ''__doc__''"
    by code_simp
  have n: "\<not> property_matches ascii_runtime sample_property_1 [(''__doc__'', VStr ''zzz'')]"
    by code_simp
  have "property_matches ascii_runtime sample_property_1
     [(''city'', VStr ''NEW''), (''price_range'', VTuple [VInt 0, VFloat PInf])] =
   property_matches ascii_runtime sample_property_1
     (filter (\<lambda>kv. fst kv \<noteq> ''price_range'')
        [(''city'', VStr ''NEW''), (''price_range'', VTuple [VInt 0, VFloat PInf])])"
    by (rule absent_field_ignored [OF h])
  with h m d n show ?thesis
    by (intro conjI)
qed

text \<open>
  C6. Where the expected value of a criterion is a string and the attribute, an
  enumeration member unwrapped to its value, is a string too, the record passes that
  criterion exactly when the lowercased expected string occurs as a contiguous part of
  the lowercased attribute: the record matches the criteria if and only if that holds
  and it matches the other criteria. This holds for every runtime, so for
  \<^verbatim>\<open>str.lower\<close> as any version of the interpreter has it, and for an attribute of the
  class such as \<^verbatim>\<open>__doc__\<close> as for a field.
\<close>

theorem string_criterion_substring:
  assumes "getattr_property rt p key = Some a" and "enum_value a = VStr s"
  shows "property_matches rt p (before @ (key, VStr v) # after) =
         (sublist (rt_lower rt v) (rt_lower rt s) \<and> property_matches rt p (before @ after))"
proof -
  have "property_matches rt p ((key, VStr v) # after) =
        (str_contains (rt_lower rt s) (rt_lower rt v) \<and> property_matches rt p after)"
    using assms by (rule property_matches_strings)
  then show ?thesis
    by (auto simp: property_matches_append str_contains_sublist)
qed

theorem string_criterion_substring_witness:
  "getattr_property ascii_runtime sample_property_1 ''status'' =
     Some (VPropertyStatus FOR_SALE) \<and>
   enum_value (VPropertyStatus FOR_SALE) = VStr ''For Sale'' \<and>
   sublist (rt_lower ascii_runtime ''SALE'') (rt_lower ascii_runtime ''For Sale'') \<and>
   ''SALE'' \<noteq> ''For Sale'' \<and>
   property_matches ascii_runtime sample_property_1
     ([(''bedrooms'', VInt 3)] @ (''status'', VStr ''SALE'') # []) \<and>
   getattr_property ascii_runtime sample_property_1 ''__doc__'' =
     Some (VStr ''Class representing a real estate property'') \<and>
   \<not> sublist (rt_lower ascii_runtime ''zzz'')
       (rt_lower ascii_runtime ''Class representing a real estate property'') \<and>
   \<not> property_matches ascii_runtime sample_property_1 ([] @ (''__doc__'', VStr ''zzz'') # [])"
proof -
  have g: "getattr_property ascii_runtime sample_property_1 ''status'' =
             Some (VPropertyStatus FOR_SALE)"
    by code_simp
  have e: "enum_value (VPropertyStatus FOR_SALE) = VStr ''For Sale''"
    by simp
  have s: "sublist (rt_lower ascii_runtime ''SALE'') (rt_lower ascii_runtime ''For Sale'')"
    by code_simp
  have ne: "''SALE'' \<noteq> ''For Sale''"
    by simp
  have r: "property_matches ascii_runtime sample_property_1 ([(''bedrooms'', VInt 3)] @ [])"
    by code_simp
  have "property_matches ascii_runtime sample_property_1
          ([(''bedrooms'', VInt 3)] @ (''status'', VStr ''SALE'') # []) =
        (sublist (rt_lower ascii_runtime ''SALE'') (rt_lower ascii_runtime ''For Sale'') \<and>
         property_matches ascii_runtime sample_property_1 ([(''bedrooms'', VInt 3)] @ []))"
    by (rule string_criterion_substring [OF g e])
  with s r have m: "property_matches ascii_runtime sample_property_1
          ([(''bedrooms'', VInt 3)] @ (''status'', VStr ''SALE'') # [])"
    by (rule_tac iffD2) auto
  have g': "getattr_property ascii_runtime sample_property_1 ''__doc__'' =
              Some (VStr ''Class representing a real estate property'')"
    by code_simp
  have e': "enum_value (VStr ''Class representing a real estate property'') =
              VStr ''Class representing a real estate property''"
    by simp
  have n: "\<not> sublist (rt_lower ascii_runtime ''zzz'')
              (rt_lower ascii_runtime ''Class representing a real estate property'')"
    by code_simp
  have "property_matches ascii_runtime sample_property_1 ([] @ (''__doc__'', VStr ''zzz'') # []) =
        (sublist (rt_lower ascii_runtime ''zzz'')
           (rt_lower ascii_runtime ''Class representing a real estate property'') \<and>
         property_matches ascii_runtime sample_property_1 ([] @ []))"
    by (rule string_criterion_substring [OF g' e'])
  with n have m': "\<not> property_matches ascii_runtime sample_property_1
          ([] @ (''__doc__'', VStr ''zzz'') # [])"
    by blast
  from g e s ne m g' n m' show ?thesis
    by (intro conjI)
qed

section \<open>Properties of update_property_status\<close>

lemma dict_modify_keys: "map fst (dict_modify d k f) = map fst d"
  by (induction d) auto

lemma map_of_dict_modify:
  "map_of d k = Some v \<Longrightarrow> map_of (dict_modify d k f) = (map_of d)(k \<mapsto> f v)"
  by (induction d) (auto simp: fun_eq_iff)

text \<open>
  C2, as stated, fails in its first half: for an identifier that is not in the
  collection \<^verbatim>\<open>update_property_status\<close> raises nothing. It returns normally, with the
  state as it was, and only prints the line \<^verbatim>\<open>Property PROP0009 not found\<close>.
\<close>

theorem update_unknown_id_counterexample:
  "\<not> dict_contains (properties sample_system) ''PROP0009'' \<and>
   update_property_status sample_system ''PROP0009'' SOLD =
     Inr (sample_system, ''Property PROP0009 not found'')"
  by code_simp

text \<open>
  C2, amended. For an identifier that is not in the collection
  \<^verbatim>\<open>update_property_status\<close> returns normally, leaves the state unchanged and prints
  that the property was not found. For an identifier that is in the collection it
  returns a state with the same clients, the same keys in the same order, and the same
  record under every key, except that the record under the identifier has the new
  status.
\<close>

theorem update_property_status_effect:
  "(\<not> dict_contains (properties s) pid \<longrightarrow>
      update_property_status s pid new_status =
        Inr (s, ''Property '' @ pid @ '' not found'')) \<and>
   (\<forall>p. map_of (properties s) pid = Some p \<longrightarrow>
      (\<exists>s' line. update_property_status s pid new_status = Inr (s', line) \<and>
         clients s' = clients s \<and>
         map fst (properties s') = map fst (properties s) \<and>
         map_of (properties s') = (map_of (properties s))(pid \<mapsto> p\<lparr>status := new_status\<rparr>)))"
  by (simp add: update_property_status_def dict_contains_def dict_modify_keys
      map_of_dict_modify)

theorem update_property_status_effect_witness:
  "update_property_status sample_system ''PROP0009'' SOLD =
     Inr (sample_system, ''Property PROP0009 not found'') \<and>
   (\<exists>s' line. update_property_status sample_system ''PROP0002'' SOLD = Inr (s', line) \<and>
      clients s' = clients sample_system \<and>
      map fst (properties s') = [''PROP0001'', ''PROP0002''] \<and>
      map_of (properties s') ''PROP0001'' = Some sample_property_1 \<and>
      map_of (properties s') ''PROP0002'' = Some (sample_property_2\<lparr>status := SOLD\<rparr>))"
proof -
  have absent: "\<not> dict_contains (properties sample_system) ''PROP0009''"
    by code_simp
  have present: "map_of (properties sample_system) ''PROP0002'' = Some sample_property_2"
    by (simp add: sample_system_def)
  have first: "map_of (properties sample_system) ''PROP0001'' = Some sample_property_1"
    by (simp add: sample_system_def)
  have keys: "map fst (properties sample_system) = [''PROP0001'', ''PROP0002'']"
    by (simp add: sample_system_def)
  from update_property_status_effect [of sample_system "''PROP0009''" SOLD] absent
  have 1: "update_property_status sample_system ''PROP0009'' SOLD =
     Inr (sample_system, ''Property PROP0009 not found'')"
    by simp
  from update_property_status_effect [of sample_system "''PROP0002''" SOLD] present
  obtain s' line where 2: "update_property_status sample_system ''PROP0002'' SOLD = Inr (s', line)"
    "clients s' = clients sample_system"
    "map fst (properties s') = map fst (properties sample_system)"
    "map_of (properties s') =
       (map_of (properties sample_system))(''PROP0002'' \<mapsto> sample_property_2\<lparr>status := SOLD\<rparr>)"
    by blast
  from 2(4) first have "map_of (properties s') ''PROP0001'' = Some sample_property_1"
    by simp
  moreover from 2(4) have "map_of (properties s') ''PROP0002'' = Some (sample_property_2\<lparr>status := SOLD\<rparr>)"
    by simp
  ultimately show ?thesis using 1 2(1,2,3) keys by auto
qed

section \<open>Properties of the float model\<close>

lemma nbits_nonneg: "0 \<le> nbits n"
  by (induction n rule: nbits.induct) (subst nbits.simps, simp)

lemma nbits_pos: "0 < n \<Longrightarrow> 0 < nbits n"
  using nbits_nonneg [of "n div 2"] by (subst nbits.simps) simp

lemma nbits_le: "n < 2 ^ k \<Longrightarrow> nbits n \<le> int k"
proof (induction n arbitrary: k rule: nbits.induct)
  case (1 n)
  show ?case
  proof (cases "n \<le> 0")
    case True
    then show ?thesis by (subst nbits.simps) simp
  next
    case False
    with "1.prems" obtain j where k: "k = Suc j"
      by (cases k) auto
    from "1.prems" k have "n div 2 < 2 ^ j" by simp
    with "1.IH" False have "nbits (n div 2) \<le> int j" by simp
    with False k show ?thesis by (subst nbits.simps) simp
  qed
qed

lemma rnd_even_of_int: "rnd_even (of_int m) = m"
  by (simp add: rnd_even_def)

text \<open>An integer below \<open>2 ^ 53\<close> in absolute value is a float: rounding leaves it.\<close>

lemma round64_core:
  assumes n: "0 < n" "n < 2 ^ 53"
  shows "rat_of_int (rnd_even (of_int n / pow2 (max (expo (of_int n)) (- 1022) - 52))) *
           pow2 (max (expo (of_int n)) (- 1022) - 52) = of_int n"
    and "\<not> pow2 1024 \<le> rat_of_int n"
proof -
  define e where "e = nbits n - 1"
  have e: "0 \<le> e" "e \<le> 52"
    using nbits_pos [OF n(1)] nbits_le [OF n(2)] by (simp_all add: e_def)
  have ex: "expo (of_int n) = e"
    using n(1) by (simp add: expo_def e_def)
  define k where "k = nat (52 - e)"
  have u: "pow2 (max e (- 1022) - 52) = 1 / 2 ^ k"
    using e by (auto simp: pow2_def k_def max_def)
  have q: "rat_of_int n / (1 / 2 ^ k) = of_int (n * 2 ^ k)" by simp
  show "rat_of_int (rnd_even (of_int n / pow2 (max (expo (of_int n)) (- 1022) - 52))) *
           pow2 (max (expo (of_int n)) (- 1022) - 52) = of_int n"
    unfolding ex u q rnd_even_of_int by simp
  have "rat_of_int n < of_int (2 ^ 53)" using n(2) by (simp only: of_int_less_iff)
  also have "\<dots> \<le> pow2 1024" by (simp add: pow2_def)
  finally show "\<not> pow2 1024 \<le> rat_of_int n" by simp
qed

lemma round64_of_int:
  assumes "\<bar>i\<bar> < 2 ^ 53"
  shows "round64 (of_int i) = Fin (of_int i)"
proof -
  consider "i = 0" | "0 < i" | "i < 0" by linarith
  then show ?thesis
  proof cases
    case 1
    then show ?thesis by (simp add: round64_def)
  next
    case 2
    with assms have n: "0 < i" "i < 2 ^ 53" by simp_all
    have a: "\<bar>rat_of_int i\<bar> = of_int i" using 2 by simp
    show ?thesis
      unfolding round64_def Let_def a round64_core(1) [OF n]
      using 2 round64_core(2) [OF n] by simp
  next
    case 3
    with assms have n: "0 < - i" "- i < 2 ^ 53" by simp_all
    have a: "\<bar>rat_of_int i\<bar> = of_int (- i)" using 3 by simp
    show ?thesis
      unfolding round64_def Let_def a round64_core(1) [OF n]
      using 3 round64_core(2) [OF n] by simp
  qed
qed

lemma float_of_int_exact: "\<bar>i\<bar> < 2 ^ 53 \<Longrightarrow> float_of_int i = Inr (Fin (of_int i))"
  by (simp add: float_of_int_def round64_of_int)

section \<open>Properties of calculate_mortgage\<close>

lemma ebind_Inr [simp]: "ebind (Inr x) f = f x"
  by (simp add: ebind_def)

lemma ebind_Inl [simp]: "ebind (Inl e) f = Inl e"
  by (simp add: ebind_def)

lemma ebind_eq_Inr: "ebind m f = Inr y \<Longrightarrow> \<exists>x. m = Inr x \<and> f x = Inr y"
  by (cases m) simp_all

lemma fdiv_int_exact: "\<bar>i\<bar> < 2 ^ 53 \<Longrightarrow> fdiv_int x i = fdiv x (Fin (of_int i))"
  by (simp add: fdiv_int_def float_of_int_exact)

lemma fmul_int_exact: "\<bar>i\<bar> < 2 ^ 53 \<Longrightarrow> fmul_int x i = Inr (fmul x (Fin (of_int i)))"
  by (simp add: fmul_int_def float_of_int_exact)

lemma fdiv_by_zero: "fdiv x (Fin 0) = Inl ZeroDivisionError"
  by simp

lemma fdiv_by_nonzero: "b \<noteq> 0 \<Longrightarrow> \<exists>q. fdiv x (Fin b) = Inr q"
  by (cases x) simp_all

lemma fdiv_int_const: "\<exists>q. fdiv_int x 100 = Inr q" "\<exists>q. fdiv_int x 12 = Inr q"
  using fdiv_by_nonzero [of 100 x] fdiv_by_nonzero [of 12 x]
  by (simp_all add: fdiv_int_exact)

lemma monthly_rate_zero: "fdiv (Fin 0) (Fin 100) = Inr (Fin 0)" "fdiv (Fin 0) (Fin 12) = Inr (Fin 0)"
  by (simp_all add: round64_def)

lemma fsub_self_one: "fsub (Fin 1) (Fin 1) = Fin 0"
  by (simp add: fsub_def round64_def)

lemma calculate_mortgage_term_zero:
  "calculate_mortgage libm_pow P D R 0 = Inl ZeroDivisionError"
proof -
  obtain r100 where a: "fdiv_int R 100 = Inr r100" using fdiv_int_const(1) by blast
  obtain mr where b: "fdiv_int r100 12 = Inr mr" using fdiv_int_const(2) by blast
  have c: "fdiv_int (fsub P D) 0 = Inl ZeroDivisionError"
    by (simp add: fdiv_int_exact)
  show ?thesis
    by (simp add: calculate_mortgage_def Let_def a b c float_pow_def fsub_self_one)
qed

lemma calculate_mortgage_rate_zero:
  assumes "T \<noteq> 0" and "\<bar>T * 12\<bar> < 2 ^ 53"
  shows "\<exists>pay. fdiv (fsub P D) (Fin (of_int (T * 12))) = Inr pay \<and>
           calculate_mortgage libm_pow P D (Fin 0) T =
             Inr \<lparr>loan_amount = fsub P D, monthly_payment = pay,
                  total_payment = fmul pay (Fin (of_int (T * 12))),
                  total_interest = fsub (fmul pay (Fin (of_int (T * 12)))) (fsub P D)\<rparr>"
proof -
  from assms(1) have "rat_of_int (T * 12) \<noteq> 0" by simp
  then obtain pay where pay: "fdiv (fsub P D) (Fin (of_int (T * 12))) = Inr pay"
    using fdiv_by_nonzero by blast
  have a: "fdiv_int (Fin 0) 100 = Inr (Fin 0)" "fdiv_int (Fin 0) 12 = Inr (Fin 0)"
    by (simp_all add: fdiv_int_exact monthly_rate_zero del: fdiv.simps)
  have c: "\<not> flt (Fin 0) (Fin 0)"
    by (simp add: flt_def)
  have d: "fdiv_int (fsub P D) (T * 12) = Inr pay"
    using assms(2) pay by (simp only: fdiv_int_exact)
  have e: "fmul_int pay (T * 12) = Inr (fmul pay (Fin (of_int (T * 12))))"
    using assms(2) by (rule fmul_int_exact)
  have "calculate_mortgage libm_pow P D (Fin 0) T =
          Inr \<lparr>loan_amount = fsub P D, monthly_payment = pay,
               total_payment = fmul pay (Fin (of_int (T * 12))),
               total_interest = fsub (fmul pay (Fin (of_int (T * 12)))) (fsub P D)\<rparr>"
    by (simp only: calculate_mortgage_def Let_def a c d e ebind_Inr if_False)
  with pay show ?thesis by blast
qed

lemma calculate_mortgage_interest:
  assumes "calculate_mortgage libm_pow P D R T = Inr r"
  shows "total_interest r = fsub (total_payment r) (loan_amount r)"
    and "loan_amount r = fsub P D"
  using assms
  by (auto simp: calculate_mortgage_def Let_def ebind_def split: sum.splits)

text \<open>Single float operations, evaluated.\<close>

lemma fsub_ints:
  "\<bar>a - b\<bar> < 2 ^ 53 \<Longrightarrow> fsub (Fin (of_int a)) (Fin (of_int b)) = Fin (of_int (a - b))"
  using round64_of_int [of "a - b"] by (simp add: fsub_def)

lemma sub_100000_150000: "fsub (Fin 100000) (Fin 150000) = Fin (- 50000)"
  using fsub_ints [of 100000 150000] by simp

lemma sub_100000_20000: "fsub (Fin 100000) (Fin 20000) = Fin 80000"
  using fsub_ints [of 100000 20000] by simp

lemma sub_130000_0: "fsub (Fin 130000) (Fin 0) = Fin 130000"
  using fsub_ints [of 130000 0] by simp

lemma div_50000_360:
  "fdiv (Fin (- 50000)) (Fin 360) = Inr (Fin (- (4886718345671111 / 35184372088832)))"
  by code_simp

lemma mul_50000_360: "fmul (Fin (- (4886718345671111 / 35184372088832))) (Fin 360) = Fin (- 50000)"
  by code_simp

lemma div_80000_12:
  "fdiv (Fin 80000) (Fin (- 12)) = Inr (Fin (- (7330077518506667 / 1099511627776)))"
  by code_simp

lemma mul_80000_12: "fmul (Fin (- (7330077518506667 / 1099511627776))) (Fin (- 12)) = Fin 80000"
  by code_simp

lemma div_130000_360:
  "fdiv (Fin 130000) (Fin 360) = Inr (Fin (1588183462343111 / 4398046511104))"
  by code_simp

lemma mul_130000_360:
  "fmul (Fin (1588183462343111 / 4398046511104)) (Fin 360) =
   Fin (8933531975679999 / 68719476736)"
  by code_simp

lemma sub_interest_130000:
  "fsub (Fin (8933531975679999 / 68719476736)) (Fin 130000) = Fin (- (1 / 68719476736))"
  by code_simp

text \<open>
  C3, as stated, fails: \<^verbatim>\<open>calculate_mortgage\<close> checks nothing. With a down payment of
  150000 on a price of 100000 over 30 years, and with a term of \<open>-1\<close> years, both at
  rate 0, it returns numbers.
\<close>

theorem mortgage_unchecked_counterexample:
  "calculate_mortgage pow_rounded (Fin 100000) (Fin 150000) (Fin 0) 30 =
     Inr \<lparr>loan_amount = Fin (- 50000),
          monthly_payment = Fin (- (4886718345671111 / 35184372088832)),
          total_payment = Fin (- 50000), total_interest = Fin 0\<rparr> \<and>
   calculate_mortgage pow_rounded (Fin 100000) (Fin 20000) (Fin 0) (- 1) =
     Inr \<lparr>loan_amount = Fin 80000,
          monthly_payment = Fin (- (7330077518506667 / 1099511627776)),
          total_payment = Fin 80000, total_interest = Fin 0\<rparr>"
proof -
  have t: "(30 :: int) \<noteq> 0" "\<bar>(30 :: int) * 12\<bar> < 2 ^ 53"
    "(- 1 :: int) \<noteq> 0" "\<bar>(- 1 :: int) * 12\<bar> < 2 ^ 53"
    by simp_all
  have z: "fsub (Fin (- 50000)) (Fin (- 50000)) = Fin 0" "fsub (Fin 80000) (Fin 80000) = Fin 0"
    by (simp_all add: fsub_def round64_def)
  show ?thesis
    using calculate_mortgage_rate_zero [OF t(1,2), of "Fin 100000" "Fin 150000" pow_rounded]
      calculate_mortgage_rate_zero [OF t(3,4), of "Fin 100000" "Fin 20000" pow_rounded]
    by (simp add: sub_100000_150000 sub_100000_20000 div_50000_360 mul_50000_360
        div_80000_12 mul_80000_12 z del: fdiv.simps fmul.simps)
qed

text \<open>
  C3, amended. \<^verbatim>\<open>calculate_mortgage\<close> validates neither the term nor the down payment.
  With a term of 0 it fails, whatever the other inputs, and the error is
  \<^verbatim>\<open>ZeroDivisionError\<close>. With rate 0 and any other term (one whose number of payments
  a float holds exactly) it returns a result whose loan amount is the price minus the
  down payment, also when the term is negative or the down payment exceeds the price.
\<close>

theorem mortgage_no_validation:
  "calculate_mortgage libm_pow P D R 0 = Inl ZeroDivisionError \<and>
   (T \<noteq> 0 \<longrightarrow> \<bar>T * 12\<bar> < 2 ^ 53 \<longrightarrow>
      (\<exists>r. calculate_mortgage libm_pow P D (Fin 0) T = Inr r \<and> loan_amount r = fsub P D))"
proof (intro conjI impI)
  show "calculate_mortgage libm_pow P D R 0 = Inl ZeroDivisionError"
    by (rule calculate_mortgage_term_zero)
next
  assume "T \<noteq> 0" and "\<bar>T * 12\<bar> < 2 ^ 53"
  from calculate_mortgage_rate_zero [OF this, of P D libm_pow]
  show "\<exists>r. calculate_mortgage libm_pow P D (Fin 0) T = Inr r \<and> loan_amount r = fsub P D"
    by auto
qed

theorem mortgage_no_validation_witness:
  "calculate_mortgage pow_rounded (Fin 100000) (Fin 150000) (Fin (13 / 2)) 0 =
     Inl ZeroDivisionError \<and>
   (\<exists>r. calculate_mortgage pow_rounded (Fin 100000) (Fin 150000) (Fin 0) (- 30) = Inr r \<and>
      loan_amount r = Fin (- 50000))"
proof -
  have t: "(- 30 :: int) \<noteq> 0" "\<bar>(- 30 :: int) * 12\<bar> < 2 ^ 53"
    by simp_all
  have l: "fsub (Fin 100000) (Fin 150000) = Fin (- 50000)"
    by (rule sub_100000_150000)
  show ?thesis
    using t l mortgage_no_validation [of pow_rounded "Fin 100000" "Fin 150000"
        "Fin (13 / 2)" "- 30"]
    by simp
qed

text \<open>
  C9, as stated, fails: at rate 0 the total interest is the rounded product of the
  monthly payment and the number of payments, minus the loan, and the rounding can
  leave a rest. For a price of 130000 with no down payment over 30 years the total
  interest is \<open>- 1 / 2 ^ 36\<close>, not 0.
\<close>

theorem zero_rate_interest_counterexample:
  "calculate_mortgage pow_rounded (Fin 130000) (Fin 0) (Fin 0) 30 =
     Inr \<lparr>loan_amount = Fin 130000,
          monthly_payment = Fin (1588183462343111 / 4398046511104),
          total_payment = Fin (8933531975679999 / 68719476736),
          total_interest = Fin (- (1 / 68719476736))\<rparr>"
proof -
  have t: "(30 :: int) \<noteq> 0" "\<bar>(30 :: int) * 12\<bar> < 2 ^ 53"
    by simp_all
  show ?thesis
    using calculate_mortgage_rate_zero [OF t, of "Fin 130000" "Fin 0" pow_rounded]
    by (simp add: sub_130000_0 div_130000_360 mul_130000_360 sub_interest_130000
        del: fdiv.simps fmul.simps)
qed

text \<open>
  C9, amended. At rate 0 and a term \<open>T > 0\<close> (with \<open>12 * T\<close> below \<open>2 ^ 53\<close>)
  \<^verbatim>\<open>calculate_mortgage\<close> returns, the monthly payment is the float quotient of the loan
  amount, price minus down payment, by \<open>12 * T\<close>, the total payment is the float product
  of that payment and \<open>12 * T\<close>, and the total interest is the float difference of the
  total payment and the loan amount. In every case in which \<^verbatim>\<open>calculate_mortgage\<close> returns, the total
  interest is the total payment minus the loan amount.
\<close>

theorem zero_rate_mortgage:
  "(0 < T \<longrightarrow> T * 12 < 2 ^ 53 \<longrightarrow>
      (\<exists>pay. fdiv (fsub P D) (Fin (of_int (T * 12))) = Inr pay \<and>
         calculate_mortgage libm_pow P D (Fin 0) T =
           Inr \<lparr>loan_amount = fsub P D, monthly_payment = pay,
                total_payment = fmul pay (Fin (of_int (T * 12))),
                total_interest = fsub (fmul pay (Fin (of_int (T * 12)))) (fsub P D)\<rparr>)) \<and>
   (\<forall>r. calculate_mortgage libm_pow P D R T = Inr r \<longrightarrow>
      total_interest r = fsub (total_payment r) (loan_amount r))"
proof (intro conjI impI allI)
  assume "0 < T" and "T * 12 < 2 ^ 53"
  then have "T \<noteq> 0" and "\<bar>T * 12\<bar> < 2 ^ 53" by simp_all
  then show "\<exists>pay. fdiv (fsub P D) (Fin (of_int (T * 12))) = Inr pay \<and>
         calculate_mortgage libm_pow P D (Fin 0) T =
           Inr \<lparr>loan_amount = fsub P D, monthly_payment = pay,
                total_payment = fmul pay (Fin (of_int (T * 12))),
                total_interest = fsub (fmul pay (Fin (of_int (T * 12)))) (fsub P D)\<rparr>"
    by (rule calculate_mortgage_rate_zero)
next
  fix r
  assume "calculate_mortgage libm_pow P D R T = Inr r"
  then show "total_interest r = fsub (total_payment r) (loan_amount r)"
    by (rule calculate_mortgage_interest)
qed

theorem zero_rate_mortgage_witness:
  "(\<exists>pay. fdiv (fsub (Fin 750000) (Fin 150000)) (Fin (of_int (30 * 12))) = Inr pay \<and>
      calculate_mortgage pow_rounded (Fin 750000) (Fin 150000) (Fin 0) 30 =
        Inr \<lparr>loan_amount = fsub (Fin 750000) (Fin 150000), monthly_payment = pay,
             total_payment = fmul pay (Fin (of_int (30 * 12))),
             total_interest =
               fsub (fmul pay (Fin (of_int (30 * 12)))) (fsub (Fin 750000) (Fin 150000))\<rparr>) \<and>
   (\<exists>r. calculate_mortgage pow_rounded (Fin 750000) (Fin 150000) (Fin 0) 30 = Inr r \<and>
      total_interest r = fsub (total_payment r) (loan_amount r))"
proof -
  have t: "(0 :: int) < 30" "(30 :: int) * 12 < 2 ^ 53"
    by simp_all
  from zero_rate_mortgage [of 30 "Fin 750000" "Fin 150000" pow_rounded "Fin 0"] t
  show ?thesis by blast
qed

section \<open>Properties of match_clients_to_properties\<close>


lemma suitable_properties_sound:
  "suitable_properties rt c ps = Inr acc \<Longrightarrow> m \<in> set acc \<Longrightarrow>
     matched_property m \<in> set ps \<and>
     fle (price (matched_property m)) (fmul (budget c) float_1_1) \<and>
     score_property rt c (matched_property m) = Inr (match_score m) \<and> 40 \<le> match_score m"
proof (induction ps arbitrary: acc)
  case Nil
  then show ?case by simp
next
  case (Cons p ps)
  show ?case
  proof (cases "status p \<in> set [FOR_SALE, PENDING] \<and> fle (price p) (fmul (budget c) float_1_1)")
    case False
    with Cons.prems(1) have "suitable_properties rt c ps = Inr acc"
      by (auto split: if_splits)
    from Cons.IH [OF this Cons.prems(2)] show ?thesis by simp
  next
    case True
    with Cons.prems(1) obtain sc rest where sc: "score_property rt c p = Inr sc"
      and rest: "suitable_properties rt c ps = Inr rest"
      and acc: "acc = (if 40 \<le> sc then \<lparr>matched_property = p, match_score = sc\<rparr> # rest
                       else rest)"
      by (auto split: sum.splits)
    show ?thesis
    proof (cases "m \<in> set rest")
      case True
      from Cons.IH [OF rest this] show ?thesis by simp
    next
      case False
      with Cons.prems(2) acc have "40 \<le> sc" and "m = \<lparr>matched_property = p, match_score = sc\<rparr>"
        by (auto split: if_splits)
      with True sc show ?thesis by simp
    qed
  qed
qed

lemma suitable_properties_order:
  "suitable_properties rt c ps = Inr acc \<Longrightarrow> subseq (map matched_property acc) ps"
proof (induction ps arbitrary: acc)
  case Nil
  then show ?case by simp
next
  case (Cons p ps)
  show ?case
  proof (cases "status p \<in> set [FOR_SALE, PENDING] \<and> fle (price p) (fmul (budget c) float_1_1)")
    case False
    with Cons.prems have "suitable_properties rt c ps = Inr acc"
      by (auto split: if_splits)
    from Cons.IH [OF this] show ?thesis by auto
  next
    case True
    with Cons.prems obtain sc rest where rest: "suitable_properties rt c ps = Inr rest"
      and acc: "acc = (if 40 \<le> sc then \<lparr>matched_property = p, match_score = sc\<rparr> # rest
                       else rest)"
      by (auto split: sum.splits)
    from Cons.IH [OF rest] acc show ?thesis by auto
  qed
qed

lemma set_sort_reverse: "set (sort_reverse k xs) = set xs"
  by (simp add: sort_reverse_def)

lemma length_sort_reverse: "length (sort_reverse k xs) = length xs"
  by (simp add: sort_reverse_def)

lemma sort_reverse_descending: "sorted_wrt (\<ge>) (map k (sort_reverse k xs))"
proof -
  have "sorted (map k (sort_key k (rev xs)))"
    by (rule sorted_sort_key)
  then show ?thesis
    unfolding sort_reverse_def rev_map [symmetric] sorted_wrt_rev .
qed

lemma sort_reverse_stable:
  "filter (\<lambda>y. k y = v) (sort_reverse k xs) = filter (\<lambda>y. k y = v) xs"
proof -
  have "filter (\<lambda>y. k y = v) (sort_reverse k xs) =
        rev (filter (\<lambda>y. k y = v) (sort_key k (rev xs)))"
    by (simp add: sort_reverse_def rev_filter)
  also have "\<dots> = rev (filter (\<lambda>y. k y = v) (rev xs))"
    by (simp only: sort_key_stable)
  also have "\<dots> = filter (\<lambda>y. k y = v) xs"
    by (simp add: rev_filter)
  finally show ?thesis .
qed

lemma mset_sort_reverse: "mset (sort_reverse k xs) = mset xs"
  by (simp add: sort_reverse_def)

text \<open>
  A list has one ranking only: a rearrangement with keys that do not increase which
  keeps the elements of any one key in their order is \<open>sort_reverse\<close> of the list.
\<close>

lemma stable_ranking_unique:
  assumes "mset ranked = mset xs" and "sorted_wrt (\<ge>) (map k ranked)"
    and "\<forall>v. filter (\<lambda>m. k m = v) ranked = filter (\<lambda>m. k m = v) xs"
  shows "ranked = sort_reverse k xs"
proof -
  have unique: "sort_key (\<lambda>m. - k m) xs = ys"
    if "mset ys = mset xs" and "sorted_wrt (\<ge>) (map k ys)"
      and "\<forall>v. filter (\<lambda>m. k m = v) ys = filter (\<lambda>m. k m = v) xs" for ys
  proof (rule properties_for_sort_key)
    show "mset ys = mset xs" by (rule that(1))
    show "sorted (map (\<lambda>m. - k m) ys)"
      using that(2) by (simp add: sorted_wrt_map)
    fix a
    from that(3) have "filter (\<lambda>m. k m = k a) ys = filter (\<lambda>m. k m = k a) xs"
      by simp
    moreover have "(\<lambda>m. - k a = - k m) = (\<lambda>m. k m = k a)"
      by auto
    ultimately show "filter (\<lambda>m. - k a = - k m) ys = filter (\<lambda>m. - k a = - k m) xs"
      by simp
  qed
  have "sort_key (\<lambda>m. - k m) xs = ranked"
    using assms by (rule unique)
  moreover have "sort_key (\<lambda>m. - k m) xs = sort_reverse k xs"
    by (rule unique) (simp_all add: mset_sort_reverse sort_reverse_descending
        sort_reverse_stable)
  ultimately show ?thesis by simp
qed

lemma client_matches_ranking:
  assumes "client_matches rt c props = Inr ms"
  shows "\<exists>suitable. suitable_properties rt c props = Inr suitable \<and>
           ms = take 5 (sort_reverse match_score suitable) \<and>
           length ms \<le> 5 \<and> sorted_wrt (\<ge>) (map match_score ms) \<and> set ms \<subseteq> set suitable \<and>
           (\<forall>v. prefix (filter (\<lambda>m. match_score m = v) ms)
                  (filter (\<lambda>m. match_score m = v) suitable))"
proof -
  from assms obtain suitable where s: "suitable_properties rt c props = Inr suitable"
    and ms: "ms = take 5 (sort_reverse match_score suitable)"
    unfolding client_matches_def by (auto dest: ebind_eq_Inr)
  have "sorted_wrt (\<ge>) (take 5 (map match_score (sort_reverse match_score suitable)))"
    using sort_reverse_descending by (rule sorted_wrt_take)
  then have d: "sorted_wrt (\<ge>) (map match_score ms)"
    by (simp add: ms take_map)
  have sub: "set ms \<subseteq> set suitable"
    using set_take_subset [of 5 "sort_reverse match_score suitable"]
    by (simp add: ms set_sort_reverse)
  have st: "prefix (filter (\<lambda>m. match_score m = v) ms)
              (filter (\<lambda>m. match_score m = v) suitable)" for v
  proof -
    have "prefix (filter (\<lambda>m. match_score m = v) ms)
            (filter (\<lambda>m. match_score m = v) (sort_reverse match_score suitable))"
      unfolding ms by (rule filter_mono_prefix) (rule take_is_prefix)
    then show ?thesis by (simp only: sort_reverse_stable)
  qed
  from s ms d sub st show ?thesis by auto
qed

lemma update_entries:
  "(a, b) \<in> set (AList.update k v al) \<Longrightarrow> (a, b) = (k, v) \<or> (a, b) \<in> set al"
  by (induction al) (auto split: if_splits)

lemma match_loop_entries:
  "match_loop rt props cs acc = Inr matches \<Longrightarrow> (cid, ms) \<in> set matches \<Longrightarrow>
     (cid, ms) \<in> set acc \<or>
     (\<exists>c \<in> set cs. client_type c = BUYER \<and> client_id c = cid \<and>
        client_matches rt c props = Inr ms)"
proof (induction cs arbitrary: acc)
  case Nil
  then show ?case by simp
next
  case (Cons c cs)
  show ?case
  proof (cases "client_type c = BUYER")
    case False
    with Cons.prems(1) have "match_loop rt props cs acc = Inr matches" by simp
    from Cons.IH [OF this Cons.prems(2)] show ?thesis by auto
  next
    case True
    with Cons.prems(1) obtain best where best: "client_matches rt c props = Inr best"
      and loop: "match_loop rt props cs (AList.update (client_id c) best acc) = Inr matches"
      by (auto split: sum.splits)
    from Cons.IH [OF loop Cons.prems(2)]
    consider "(cid, ms) \<in> set (AList.update (client_id c) best acc)"
      | "\<exists>c \<in> set cs. client_type c = BUYER \<and> client_id c = cid \<and>
          client_matches rt c props = Inr ms"
      by blast
    then show ?thesis
    proof cases
      case 1
      from update_entries [OF this] True best show ?thesis by auto
    next
      case 2
      then show ?thesis by auto
    qed
  qed
qed

lemma match_entries:
  assumes "match_clients_to_properties rt s = Inr matches" and "(cid, ms) \<in> set matches"
  shows "\<exists>c \<in> set (dict_values (clients s)). client_type c = BUYER \<and> client_id c = cid \<and>
           client_matches rt c (dict_values (properties s)) = Inr ms"
  using match_loop_entries [OF assms [unfolded match_clients_to_properties_def]] by simp

lemma score_property_values:
  "score_property rt c p = Inr sc \<Longrightarrow>
   sc \<in> {0, 15, 20, 25, 30, 35, 40, 45, 50, 55, 60, 65, 70, 75, 90}"
  by (auto simp: score_property_def Let_def ebind_def split: sum.splits if_splits)

lemma weight_sums:
  "sum_list ` set (subseqs [30, 25, 20, 15 :: int]) =
   {0, 15, 20, 25, 30, 35, 40, 45, 50, 55, 60, 65, 70, 75, 90}"
  by (simp add: Let_def insert_commute)

text \<open>The matcher on the example portfolio.\<close>

lemma limit_800000: "fmul (Fin 800000) float_1_1 = Fin (7559142440960001 / 8589934592)"
  by code_simp

lemma demo_matches:
  "match_clients_to_properties ascii_runtime demo_system =
     Inr [(''CLI0001'',
           [\<lparr>matched_property = listing ''D'' RESIDENTIAL FOR_SALE 4 690000, match_score = 70\<rparr>,
            \<lparr>matched_property = listing ''F'' RESIDENTIAL PENDING 3 500000, match_score = 70\<rparr>,
            \<lparr>matched_property = listing ''A'' RESIDENTIAL FOR_SALE 3 750000, match_score = 55\<rparr>,
            \<lparr>matched_property = listing ''J'' RESIDENTIAL FOR_SALE 3 720000, match_score = 55\<rparr>,
            \<lparr>matched_property = listing ''B'' RESIDENTIAL FOR_SALE 2 600000, match_score = 45\<rparr>])]"
proof -
  have b: "budget demo_client = Fin 800000" "preferences demo_client =
       [(''property_type'', VStr ''Residential''), (''bedrooms'', VInt 3),
        (''max_price'', VInt 700000)]" "client_type demo_client = BUYER"
       "client_id demo_client = ''CLI0001''"
    by (simp_all add: demo_client_def sample_client_1_def)
  have l: "status (listing pid kind st beds amount) = st"
    "price (listing pid kind st beds amount) = Fin amount"
    "bedrooms (listing pid kind st beds amount) = beds"
    "property_type (listing pid kind st beds amount) = kind" for pid kind st beds amount
    by (simp_all add: listing_def)
  show ?thesis
    by (simp add: match_clients_to_properties_def demo_system_def dict_values_def
        client_matches_def score_property_def dict_contains_def num_ge_val_def
        num_le_val_def sort_reverse_def Let_def b l limit_800000)
qed

lemma demo_suitable:
  "suitable_properties ascii_runtime demo_client (dict_values (properties demo_system)) =
     Inr demo_accepted"
proof -
  have b: "budget demo_client = Fin 800000" "preferences demo_client =
       [(''property_type'', VStr ''Residential''), (''bedrooms'', VInt 3),
        (''max_price'', VInt 700000)]"
    by (simp_all add: demo_client_def sample_client_1_def)
  have l: "status (listing pid kind st beds amount) = st"
    "price (listing pid kind st beds amount) = Fin amount"
    "bedrooms (listing pid kind st beds amount) = beds"
    "property_type (listing pid kind st beds amount) = kind" for pid kind st beds amount
    by (simp_all add: listing_def)
  show ?thesis
    by (simp add: demo_system_def demo_accepted_def dict_values_def score_property_def
        dict_contains_def num_ge_val_def num_le_val_def Let_def b l limit_800000)
qed

lemma sample_matches:
  "match_clients_to_properties ascii_runtime sample_system =
     Inr [(''CLI0001'', [\<lparr>matched_property = sample_property_1, match_score = 75\<rparr>])]"
  by code_simp



text \<open>
  C5. Every list that \<^verbatim>\<open>match_clients_to_properties\<close> returns has at most 5 entries
  and scores that do not increase from first to last. It belongs to a buyer with that
  identifier, and it is the first 5 entries of the ranking of the entries accepted for
  that buyer: the accepted entries stand in the order in which the properties are met,
  and their ranking is their rearrangement with scores that do not increase in which
  the entries of any one score keep that order (by \<open>stable_ranking_unique\<close> there is
  one such rearrangement only).
\<close>

theorem top_five_ranking:
  assumes "match_clients_to_properties rt s = Inr matches" and "(cid, ms) \<in> set matches"
  shows "length ms \<le> 5 \<and> sorted_wrt (\<ge>) (map match_score ms) \<and>
         (\<exists>c suitable ranked.
            c \<in> set (dict_values (clients s)) \<and> client_type c = BUYER \<and> client_id c = cid \<and>
            suitable_properties rt c (dict_values (properties s)) = Inr suitable \<and>
            subseq (map matched_property suitable) (dict_values (properties s)) \<and>
            mset ranked = mset suitable \<and>
            sorted_wrt (\<ge>) (map match_score ranked) \<and>
            (\<forall>v. filter (\<lambda>m. match_score m = v) ranked =
                  filter (\<lambda>m. match_score m = v) suitable) \<and>
            ms = take 5 ranked)"
proof -
  from match_entries [OF assms] obtain c where c: "c \<in> set (dict_values (clients s))"
    and buyer: "client_type c = BUYER"
    and cid: "client_id c = cid"
    and cm: "client_matches rt c (dict_values (properties s)) = Inr ms"
    by auto
  from client_matches_ranking [OF cm] obtain suitable where
    s: "suitable_properties rt c (dict_values (properties s)) = Inr suitable"
    and ms: "ms = take 5 (sort_reverse match_score suitable)"
    and r: "length ms \<le> 5" "sorted_wrt (\<ge>) (map match_score ms)"
    by auto
  define ranked where "ranked = sort_reverse match_score suitable"
  have p: "mset ranked = mset suitable"
    unfolding ranked_def by (rule mset_sort_reverse)
  have d: "sorted_wrt (\<ge>) (map match_score ranked)"
    unfolding ranked_def by (rule sort_reverse_descending)
  have st: "\<forall>v. filter (\<lambda>m. match_score m = v) ranked =
                 filter (\<lambda>m. match_score m = v) suitable"
    unfolding ranked_def by (simp add: sort_reverse_stable)
  have t: "ms = take 5 ranked"
    unfolding ranked_def by (rule ms)
  have "\<exists>c suitable ranked.
            c \<in> set (dict_values (clients s)) \<and> client_type c = BUYER \<and> client_id c = cid \<and>
            suitable_properties rt c (dict_values (properties s)) = Inr suitable \<and>
            subseq (map matched_property suitable) (dict_values (properties s)) \<and>
            mset ranked = mset suitable \<and>
            sorted_wrt (\<ge>) (map match_score ranked) \<and>
            (\<forall>v. filter (\<lambda>m. match_score m = v) ranked =
                  filter (\<lambda>m. match_score m = v) suitable) \<and>
            ms = take 5 ranked"
    using suitable_properties_order [OF s] c buyer cid s p d st t
    by (intro exI [of _ c] exI [of _ suitable] exI [of _ ranked] conjI)
  with r show ?thesis
    by (intro conjI)
qed

theorem top_five_ranking_witness:
  "(\<exists>ms. match_clients_to_properties ascii_runtime demo_system = Inr [(''CLI0001'', ms)] \<and>
      map (property_id \<circ> matched_property) ms = [''D'', ''F'', ''A'', ''J'', ''B''] \<and>
      map match_score ms = [70, 70, 55, 55, 45] \<and>
      length ms \<le> 5 \<and> sorted_wrt (\<ge>) (map match_score ms)) \<and>
   (\<exists>suitable.
      suitable_properties ascii_runtime demo_client (dict_values (properties demo_system)) =
        Inr suitable \<and>
      map (property_id \<circ> matched_property) suitable =
        [''A'', ''B'', ''C'', ''D'', ''F'', ''I'', ''J''] \<and>
      map match_score suitable = [55, 45, 40, 70, 70, 40, 55])"
proof -
  define ms where "ms =
     [\<lparr>matched_property = listing ''D'' RESIDENTIAL FOR_SALE 4 690000, match_score = 70\<rparr>,
      \<lparr>matched_property = listing ''F'' RESIDENTIAL PENDING 3 500000, match_score = 70\<rparr>,
      \<lparr>matched_property = listing ''A'' RESIDENTIAL FOR_SALE 3 750000, match_score = 55\<rparr>,
      \<lparr>matched_property = listing ''J'' RESIDENTIAL FOR_SALE 3 720000, match_score = 55\<rparr>,
      \<lparr>matched_property = listing ''B'' RESIDENTIAL FOR_SALE 2 600000, match_score = 45\<rparr>]"
  have m: "match_clients_to_properties ascii_runtime demo_system = Inr [(''CLI0001'', ms)]"
    unfolding ms_def by (rule demo_matches)
  have i: "(''CLI0001'', ms) \<in> set [(''CLI0001'', ms)]"
    by simp
  have n: "map (property_id \<circ> matched_property) ms = [''D'', ''F'', ''A'', ''J'', ''B'']"
    "map match_score ms = [70, 70, 55, 55, 45]"
    by (simp_all add: ms_def listing_def)
  from top_five_ranking [OF m i] have "length ms \<le> 5" "sorted_wrt (\<ge>) (map match_score ms)"
    by (rule conjunct1, rule conjunct2 [THEN conjunct1])
  with m n have first: "\<exists>ms. match_clients_to_properties ascii_runtime demo_system =
        Inr [(''CLI0001'', ms)] \<and>
      map (property_id \<circ> matched_property) ms = [''D'', ''F'', ''A'', ''J'', ''B''] \<and>
      map match_score ms = [70, 70, 55, 55, 45] \<and>
      length ms \<le> 5 \<and> sorted_wrt (\<ge>) (map match_score ms)"
    by (intro exI [of _ ms] conjI)
  have "map (property_id \<circ> matched_property) demo_accepted =
          [''A'', ''B'', ''C'', ''D'', ''F'', ''I'', ''J'']"
    "map match_score demo_accepted = [55, 45, 40, 70, 70, 40, 55]"
    by (simp_all add: demo_accepted_def listing_def)
  with demo_suitable have "\<exists>suitable.
      suitable_properties ascii_runtime demo_client (dict_values (properties demo_system)) =
        Inr suitable \<and>
      map (property_id \<circ> matched_property) suitable =
        [''A'', ''B'', ''C'', ''D'', ''F'', ''I'', ''J''] \<and>
      map match_score suitable = [55, 45, 40, 70, 70, 40, 55]"
    by (intro exI [of _ demo_accepted] conjI)
  with first show ?thesis
    by (intro conjI)
qed

text \<open>
  C10. Every score in a list that \<^verbatim>\<open>match_clients_to_properties\<close> returns is the
  sum of some of the weights 30, 25, 20 and 15, each taken at most once, and lies
  between 40 and 90.
\<close>

theorem returned_scores:
  assumes "match_clients_to_properties rt s = Inr matches" and "(cid, ms) \<in> set matches"
    and "m \<in> set ms"
  shows "(\<exists>ws. subseq ws [30, 25, 20, 15] \<and> match_score m = sum_list ws) \<and>
         40 \<le> match_score m \<and> match_score m \<le> 90"
proof -
  from match_entries [OF assms(1,2)] obtain c where
    cm: "client_matches rt c (dict_values (properties s)) = Inr ms"
    by auto
  from client_matches_ranking [OF cm] obtain suitable where
    s: "suitable_properties rt c (dict_values (properties s)) = Inr suitable"
    and sub: "set ms \<subseteq> set suitable"
    by auto
  from assms(3) sub have "m \<in> set suitable" by auto
  from suitable_properties_sound [OF s this]
  have sc: "score_property rt c (matched_property m) = Inr (match_score m)"
    and lo: "40 \<le> match_score m"
    by simp_all
  from score_property_values [OF sc]
  have v: "match_score m \<in> {0, 15, 20, 25, 30, 35, 40, 45, 50, 55, 60, 65, 70, 75, 90}" .
  then have "match_score m \<in> sum_list ` set (subseqs [30, 25, 20, 15])"
    by (simp only: weight_sums)
  then obtain ws where w: "ws \<in> set (subseqs [30, 25, 20, 15])"
    and x: "match_score m = sum_list ws"
    by (rule imageE)
  from w have "subseq ws [30, 25, 20, 15]"
    by (simp only: in_set_subseqs)
  with x have "\<exists>ws. subseq ws [30, 25, 20, 15] \<and> match_score m = sum_list ws"
    by (intro exI [of _ ws] conjI)
  moreover from v have "match_score m \<le> 90" by auto
  ultimately show ?thesis using lo by simp
qed

theorem returned_scores_witness:
  "(\<exists>ms. match_clients_to_properties ascii_runtime sample_system = Inr [(''CLI0001'', ms)] \<and>
      map match_score ms = [75] \<and>
      (\<exists>ws. subseq ws [30, 25, 20, 15] \<and> (75 :: int) = sum_list ws) \<and>
      (40 :: int) \<le> 75 \<and> (75 :: int) \<le> 90)"
proof -
  define m where "m = \<lparr>matched_property = sample_property_1, match_score = 75\<rparr>"
  have r: "match_clients_to_properties ascii_runtime sample_system = Inr [(''CLI0001'', [m])]"
    unfolding m_def by (rule sample_matches)
  have i: "(''CLI0001'', [m]) \<in> set [(''CLI0001'', [m])]" "m \<in> set [m]"
    by simp_all
  have s: "match_score m = 75"
    by (simp add: m_def)
  from returned_scores [OF r i]
  have "(\<exists>ws. subseq ws [30, 25, 20, 15] \<and> (75 :: int) = sum_list ws) \<and>
        (40 :: int) \<le> 75 \<and> (75 :: int) \<le> 90"
    unfolding s .
  with r s show ?thesis
    by (intro exI [of _ "[m]"] conjI) simp_all
qed

section \<open>Properties of search_properties_interactive\<close>

lemma price_filter_numeric:
  "num_of lo = Some l \<Longrightarrow> num_of hi = Some h \<Longrightarrow>
   price_filter lo hi ps = Inr (filter (\<lambda>p. fle l (price p) \<and> fle (price p) h) ps)"
  by (induction ps) (simp_all add: val_le_num_def num_le_val_def)

lemma collect_criteria_append:
  "collect_criteria ti tf answers (fs @ rest) crit =
     (case collect_criteria ti tf answers fs crit of
        Inl e \<Rightarrow> Inl e
      | Inr c \<Rightarrow> collect_criteria ti tf answers rest c)"
  by (induction fs arbitrary: crit) (simp_all split: sum.split)

lemma criteria_step_keeps_range:
  assumes "f \<noteq> ''price_range''" and "f \<noteq> ''min_price''" and "f \<noteq> ''max_price''"
    and "criteria_step ti tf answers f crit = Inr c"
  shows "map_of c ''price_range'' = map_of crit ''price_range''"
  using assms
  by (auto simp: criteria_step_def update_conv' ebind_def split: if_splits sum.splits)

lemma collect_criteria_keeps_range:
  assumes "''price_range'' \<notin> set fs" and "''min_price'' \<notin> set fs" and "''max_price'' \<notin> set fs"
    and "collect_criteria ti tf answers fs crit = Inr c"
  shows "map_of c ''price_range'' = map_of crit ''price_range''"
  using assms
proof (induction fs arbitrary: crit)
  case Nil
  then show ?case by simp
next
  case (Cons f fs)
  from Cons.prems(1-3) have f: "f \<noteq> ''price_range''" "f \<noteq> ''min_price''" "f \<noteq> ''max_price''"
    and fs: "''price_range'' \<notin> set fs" "''min_price'' \<notin> set fs" "''max_price'' \<notin> set fs"
    by auto
  from Cons.prems(4) obtain crit' where
    first: "criteria_step ti tf answers f crit = Inr crit'"
    and step: "collect_criteria ti tf answers fs crit' = Inr c"
    by (auto split: sum.splits)
  from Cons.IH [OF fs step] criteria_step_keeps_range [OF f first] show ?case by simp
qed

lemma collect_criteria_bounds:
  assumes "map_of crit ''price_range'' = None"
    and "collect_criteria ti tf answers [''min_price'', ''max_price''] crit = Inr c"
  shows "map_of c ''price_range'' =
     (if answers ''min_price'' = [] \<and> answers ''max_price'' = [] then None
      else Some (VTuple
        [if answers ''min_price'' = [] then VInt 0
         else VFloat (projr (tf (answers ''min_price''))),
         if answers ''max_price'' = [] then VFloat PInf
         else VFloat (projr (tf (answers ''max_price'')))]))"
  using assms
  by (auto simp: criteria_step_def Let_def dict_get_def update_conv' ebind_def
      split: if_splits sum.splits)

lemma collect_criteria_price_range:
  assumes "collect_criteria ti tf answers fields [] = Inr criteria"
  shows "map_of criteria ''price_range'' =
     (if answers ''min_price'' = [] \<and> answers ''max_price'' = [] then None
      else Some (VTuple
        [if answers ''min_price'' = [] then VInt 0
         else VFloat (projr (tf (answers ''min_price''))),
         if answers ''max_price'' = [] then VFloat PInf
         else VFloat (projr (tf (answers ''max_price'')))]))"
proof -
  have split: "fields = [''city'', ''property_type'', ''status'', ''bedrooms''] @
                        [''min_price'', ''max_price'']"
    by (simp add: fields_def)
  from assms obtain c where
    first: "collect_criteria ti tf answers [''city'', ''property_type'', ''status'', ''bedrooms''] []
              = Inr c"
    and last: "collect_criteria ti tf answers [''min_price'', ''max_price''] c = Inr criteria"
    unfolding split collect_criteria_append by (auto split: sum.splits)
  have "map_of c ''price_range'' = map_of [] ''price_range''"
    by (rule collect_criteria_keeps_range [OF _ _ _ first]) simp_all
  then have "map_of c ''price_range'' = None" by simp
  from collect_criteria_bounds [OF this last] show ?thesis .
qed

text \<open>
  C8. When at least one price bound is typed (and every typed number is read), the
  records that \<^verbatim>\<open>search_properties_interactive\<close> keeps from the search result are
  exactly those whose price \<open>v\<close> satisfies \<open>min \<le> v \<le> max\<close>, both ends included,
  in their order; \<open>min\<close> is 0 when only the upper bound is typed and \<open>max\<close> is
  positive infinity when only the least price is typed. When no bound is typed, the
  search result is not filtered.
\<close>

theorem price_range_filter:
  assumes "collect_criteria to_int to_float answers fields [] = Inr criteria"
  shows "search_properties_interactive rt to_int to_float s answers =
     Inr (if answers ''min_price'' = [] \<and> answers ''max_price'' = [] then
            search_properties rt s
              (filter (\<lambda>(k, v). k \<notin> set [''min_price'', ''max_price'']) criteria)
          else
            filter
              (\<lambda>p. fle (if answers ''min_price'' = [] then Fin 0
                         else projr (to_float (answers ''min_price''))) (price p) \<and>
                    fle (price p) (if answers ''max_price'' = [] then PInf
                         else projr (to_float (answers ''max_price''))))
              (search_properties rt s
                 (filter (\<lambda>(k, v). k \<notin> set [''min_price'', ''max_price'']) criteria)))"
proof (cases "answers ''min_price'' = [] \<and> answers ''max_price'' = []")
  case True
  with collect_criteria_price_range [OF assms] have "map_of criteria ''price_range'' = None"
    by simp
  with True assms show ?thesis
    by (simp add: search_properties_interactive_def dict_contains_def)
next
  case False
  define lo where "lo = (if answers ''min_price'' = [] then VInt 0
                         else VFloat (projr (to_float (answers ''min_price''))))"
  define hi where "hi = (if answers ''max_price'' = [] then VFloat PInf
                         else VFloat (projr (to_float (answers ''max_price''))))"
  from False collect_criteria_price_range [OF assms]
  have r: "map_of criteria ''price_range'' = Some (VTuple [lo, hi])"
    by (simp add: lo_def hi_def)
  have n: "num_of lo = Some (if answers ''min_price'' = [] then Fin 0
                             else projr (to_float (answers ''min_price'')))"
    "num_of hi = Some (if answers ''max_price'' = [] then PInf
                       else projr (to_float (answers ''max_price'')))"
    by (simp_all add: lo_def hi_def)
  from False assms r show ?thesis
    by (auto simp: search_properties_interactive_def dict_contains_def
        price_filter_numeric [OF n])
qed

theorem price_range_filter_witness:
  "search_properties_interactive ascii_runtime read_int read_float sample_system typed_answers =
     Inr [sample_property_1, sample_property_2] \<and>
   price sample_property_1 = Fin 750000 \<and> price sample_property_2 = Fin 5000"
proof -
  have c: "collect_criteria read_int read_float typed_answers fields [] =
             Inr [(''price_range'', VTuple [VFloat (Fin 5000), VFloat (Fin 750000)])]"
    by code_simp
  have e: "(if typed_answers ''min_price'' = [] \<and> typed_answers ''max_price'' = [] then
            search_properties ascii_runtime sample_system
              (filter (\<lambda>(k, v). k \<notin> set [''min_price'', ''max_price''])
                 [(''price_range'', VTuple [VFloat (Fin 5000), VFloat (Fin 750000)])])
          else
            filter
              (\<lambda>p. fle (if typed_answers ''min_price'' = [] then Fin 0
                         else projr (read_float (typed_answers ''min_price''))) (price p) \<and>
                    fle (price p) (if typed_answers ''max_price'' = [] then PInf
                         else projr (read_float (typed_answers ''max_price''))))
              (search_properties ascii_runtime sample_system
                 (filter (\<lambda>(k, v). k \<notin> set [''min_price'', ''max_price''])
                    [(''price_range'', VTuple [VFloat (Fin 5000), VFloat (Fin 750000)])]))) =
           [sample_property_1, sample_property_2]"
    by code_simp
  have p: "price sample_property_1 = Fin 750000" "price sample_property_2 = Fin 5000"
    by (simp_all add: sample_property_1_def sample_property_2_def)
  from price_range_filter [OF c, where rt = ascii_runtime and s = sample_system]
  have "search_properties_interactive ascii_runtime read_int read_float sample_system typed_answers =
          Inr [sample_property_1, sample_property_2]"
    unfolding e .
  with p show ?thesis
    by (intro conjI)
qed

end
